theory Spec2Isabelle
  imports Complex_Main "HOL-Library.Word" "HOL-Library.Signed_Division" "HOL-Library.AList"
    "HOL-Library.Log_Nat"
begin

section \<open>The per-minibatch trainer of nnet3 (nnet3/nnet-training.cc)\<close>

text \<open>
  A shallow embedding of \<^verbatim>\<open>NnetTrainer\<close>, \<^verbatim>\<open>ObjectiveFunctionInfo\<close> and
  \<^verbatim>\<open>ComputeObjectiveFunction\<close>.

  \<^item> \<^verbatim>\<open>int32\<close> is a 32-bit signed word. Addition and multiplication wrap; the division and
    remainder instructions trap on a zero divisor and on \<open>INT_MIN / -1\<close>, which is an error
    value of the model.
  \<^item> The values of \<^verbatim>\<open>BaseFloat\<close> and \<^verbatim>\<open>double\<close> are real numbers. The update parameters
    of TrainInternal (lines 103 and 119-120), which the source computes in \<^verbatim>\<open>double\<close> and
    narrows to \<^verbatim>\<open>BaseFloat\<close>, are rounded to the 53 and then to the 24 significant bits of
    the two formats. The sums of the statistics and of the objective functions are exact. The
    non-finite values of IEEE arithmetic are not represented. The one place where the source
    divides by a quantity that may be zero only prints the quotient; there the printed value
    is an \<open>option\<close>, \<open>None\<close> standing for a non-finite number.
  \<^item> \<^verbatim>\<open>KALDI_ERR\<close> and a failed \<^verbatim>\<open>KALDI_ASSERT\<close> end the process; they are the \<open>Inl\<close>
    results of the model.
  \<^item> What the process writes with \<^verbatim>\<open>KALDI_LOG\<close> and \<^verbatim>\<open>KALDI_WARN\<close>, and the calls it makes
    to the collaborators that act on the model and on the random source, are recorded in
    order in a list of events.
\<close>

subsection \<open>Machine integers\<close>

type_synonym int32 = "32 word"

datatype error =
    AssertFailed string
  | KaldiError string
  | ArithmeticFault
  | OutOfRange

definition INT32_MIN :: int32 where
  "INT32_MIN = word_of_int (- (2 ^ 31))"

text \<open>\<^verbatim>\<open>a / b\<close> on \<^verbatim>\<open>int32\<close>: the quotient is truncated towards zero.\<close>

definition int32_div :: "int32 \<Rightarrow> int32 \<Rightarrow> error + int32" where
  "int32_div a b =
     (if b = 0 \<or> (a = INT32_MIN \<and> b = - 1) then Inl ArithmeticFault
      else Inr (word_of_int (sint a sdiv sint b)))"

text \<open>\<^verbatim>\<open>a % b\<close> on \<^verbatim>\<open>int32\<close>: the remainder has the sign of the dividend.\<close>

definition int32_mod :: "int32 \<Rightarrow> int32 \<Rightarrow> error + int32" where
  "int32_mod a b =
     (if b = 0 \<or> (a = INT32_MIN \<and> b = - 1) then Inl ArithmeticFault
      else Inr (word_of_int (sint a smod sint b)))"

subsection \<open>Floating-point quotients that are only printed\<close>

definition BaseFloat_div :: "real \<Rightarrow> real \<Rightarrow> real option" where
  "BaseFloat_div x y = (if y = 0 then None else Some (x / y))"

definition BaseFloat_add :: "real option \<Rightarrow> real option \<Rightarrow> real option" where
  "BaseFloat_add x y =
     (case x of None \<Rightarrow> None
      | Some a \<Rightarrow> (case y of None \<Rightarrow> None | Some b \<Rightarrow> Some (a + b)))"

subsection \<open>Rounding to double and to BaseFloat\<close>

text \<open>
  The exponent \<open>e\<close> of a real number \<open>x\<close> that is not zero: \<open>2 powi e \<le> \<bar>x\<bar> < 2 powi (e + 1)\<close>.
\<close>

definition binary_exponent :: "real \<Rightarrow> int" where
  "binary_exponent x =
     (if 1 \<le> \<bar>x\<bar> then bitlen \<lfloor>\<bar>x\<bar>\<rfloor> - 1
      else (let k = bitlen \<lfloor>1 / \<bar>x\<bar>\<rfloor> - 1
            in if \<bar>x\<bar> * 2 powi k = 1 then - k else - k - 1))"

text \<open>The nearest integer, a tie going to the even one.\<close>

definition round_half_even :: "real \<Rightarrow> int" where
  "round_half_even y =
     (let r = \<lfloor>y\<rfloor>; d = y - of_int r
      in if d < 1 / 2 then r
         else if 1 / 2 < d then r + 1
         else if even r then r else r + 1)"

text \<open>
  The nearest number with \<open>p\<close> significant bits (round to nearest, ties to even, the
  rounding of IEEE 754 that C++ programs run under). The range of the exponent is not
  bounded: overflow and the subnormal numbers are not represented.
\<close>

definition round_to_precision :: "nat \<Rightarrow> real \<Rightarrow> real" where
  "round_to_precision p x =
     (if x = 0 then 0
      else (let ulp = 2 powi (binary_exponent x - int p + 1)
            in of_int (round_half_even (x / ulp)) * ulp))"

text \<open>\<^verbatim>\<open>double\<close> is IEEE binary64; \<^verbatim>\<open>a - b\<close> and \<^verbatim>\<open>a + b\<close> on \<^verbatim>\<open>double\<close>.\<close>

definition double_round :: "real \<Rightarrow> real" where
  "double_round x = round_to_precision 53 x"

definition double_sub :: "real \<Rightarrow> real \<Rightarrow> real" where
  "double_sub a b = double_round (a - b)"

definition double_add :: "real \<Rightarrow> real \<Rightarrow> real" where
  "double_add a b = double_round (a + b)"

text \<open>
  \<^verbatim>\<open>BaseFloat\<close> is \<^verbatim>\<open>float\<close>, IEEE binary32: the type of the default build (the typedef
  is in base/kaldi-types.h; a build with \<^verbatim>\<open>KALDI_DOUBLEPRECISION\<close> makes it \<^verbatim>\<open>double\<close>, and
  then the conversion below changes nothing). This is the conversion of a \<^verbatim>\<open>double\<close> to
  \<^verbatim>\<open>BaseFloat\<close>, which C++ makes when a \<^verbatim>\<open>BaseFloat\<close> variable is initialised or assigned
  from a \<^verbatim>\<open>double\<close> expression. The conversion of a \<^verbatim>\<open>BaseFloat\<close> to \<^verbatim>\<open>double\<close> is exact.
\<close>

definition BaseFloat_of_double :: "real \<Rightarrow> real" where
  "BaseFloat_of_double x = round_to_precision 24 x"

subsection \<open>Events\<close>

datatype event =
    LogPhase string int32 int32 "real option" real
      \<comment> \<open>Average objective function for 'name' for minibatches start-end is avg over w frames.\<close>
  | LogPhaseAux string int32 int32 "real option" "real option" "real option" real
      \<comment> \<open>... is objf + aux\_objf = sum\_objf over w frames.\<close>
  | LogTotal string "real option" real
      \<comment> \<open>Overall average objective function for 'name' is avg over w frames.\<close>
  | LogTotalAux string "real option" "real option" "real option" real
  | LogParsed "real option"
      \<comment> \<open>[this line is to be parsed by a script:] log-prob-per-frame=objf\<close>
  | LogAccuracyHeader
      \<comment> \<open>The following line is for accuracy.\<close>
  | LogMaxChangeComponent string "real option"
  | LogMaxChangeGlobal "real option"
  | LogReadCache string
  | WarnCacheNotOpened
  | Call_srand "32 word"
  | Call_ResetGenerators
  | Call_FreezeNaturalGradient bool
  | Call_TrainInternal bool
  | Call_UpdateNnetWithMaxChange real real real bool
      \<comment> \<open>max\_param\_change, max\_change\_scale, scale\_adding and the flag returned\<close>
  | Call_ScaleNnet real

subsection \<open>Matrices\<close>

text \<open>
  The matrix library (kaldi-matrix, sparse-matrix, cu-matrix, general-matrix) is not part of
  the source file. The kernels below are the ones the source calls, with the meaning the spec
  gives them: the sum of all entries, the elementwise dot product, the dense view of an
  encoding. The source applies them to operands of equal dimensions; the model is total and
  leaves the shape of the matrix that is updated in place unchanged.
\<close>

text \<open>
  Modelled from the spec: the classes Matrix and CuMatrix. A dense matrix, on the host or on
  the device, is the list of its rows.
\<close>

type_synonym Matrix = "real list list"

text \<open>Modelled from the spec: \<^verbatim>\<open>NumRows()\<close> of a dense matrix.\<close>

definition NumRows :: "Matrix \<Rightarrow> nat" where
  "NumRows M = length M"

text \<open>Modelled from the spec: \<^verbatim>\<open>NumCols()\<close> of a dense matrix, 0 when it has no row.\<close>

definition NumCols :: "Matrix \<Rightarrow> nat" where
  "NumCols M = (case M of [] \<Rightarrow> 0 | row # _ \<Rightarrow> length row)"

text \<open>Modelled from the spec: \<^verbatim>\<open>Sum()\<close> of a dense matrix, the sum of all its entries.\<close>

definition Matrix_Sum :: "Matrix \<Rightarrow> real" where
  "Matrix_Sum M = sum_list (map sum_list M)"

text \<open>Modelled from the spec: \<^verbatim>\<open>VecVec(a, b)\<close>, the dot product of two rows.\<close>

definition VecVec :: "real list \<Rightarrow> real list \<Rightarrow> real" where
  "VecVec a b = sum_list (map2 (*) a b)"

text \<open>
  Modelled from the spec: \<^verbatim>\<open>TraceMatMat(A, B, kTrans)\<close>, the trace of \<open>A B\<^sup>T\<close>, which is
  the elementwise dot product, the sum of \<open>A(i,j) * B(i,j)\<close>.
\<close>

definition TraceMatMat_kTrans :: "Matrix \<Rightarrow> Matrix \<Rightarrow> real" where
  "TraceMatMat_kTrans A B = sum_list (map2 VecVec A B)"

text \<open>
  Modelled from the spec: \<^verbatim>\<open>M.AddMat(alpha, A)\<close>, that is \<open>M(i,j) += alpha * A(i,j)\<close>, row
  by row.
\<close>

fun AddVec :: "real \<Rightarrow> real list \<Rightarrow> real list \<Rightarrow> real list" where
  "AddVec alpha (a # as) (m # ms) = (m + alpha * a) # AddVec alpha as ms"
| "AddVec alpha as ms = ms"

fun AddMat :: "real \<Rightarrow> Matrix \<Rightarrow> Matrix \<Rightarrow> Matrix" where
  "AddMat alpha (a # as) (m # ms) = AddVec alpha a m # AddMat alpha as ms"
| "AddMat alpha as ms = ms"

text \<open>
  Modelled from the spec: the classes SparseVector and SparseMatrix. A sparse vector has a
  dimension and a list of (index, value) pairs; a sparse matrix is the list of its rows.
\<close>

record SparseVector =
  sv_dim :: nat
  sv_pairs :: "(nat \<times> real) list"

type_synonym SparseMatrix = "SparseVector list"

text \<open>
  Modelled from the spec: \<^verbatim>\<open>Sum()\<close> of a sparse vector and of a sparse matrix, the sum of
  the values of the pairs, and \<^verbatim>\<open>NumCols()\<close> of a sparse matrix, the dimension of its first
  row.
\<close>

definition SparseVector_Sum :: "SparseVector \<Rightarrow> real" where
  "SparseVector_Sum v = sum_list (map snd (sv_pairs v))"

definition SparseMatrix_Sum :: "SparseMatrix \<Rightarrow> real" where
  "SparseMatrix_Sum S = sum_list (map SparseVector_Sum S)"

definition SparseMatrix_NumCols :: "SparseMatrix \<Rightarrow> nat" where
  "SparseMatrix_NumCols S = (case S of [] \<Rightarrow> 0 | v # _ \<Rightarrow> sv_dim v)"

text \<open>
  Modelled from the spec: \<^verbatim>\<open>VecSvec(vec, svec)\<close>, the sum of \<open>vec(index) * value\<close> over the
  pairs, and \<^verbatim>\<open>TraceMatSmat(A, S, kTrans)\<close>, its sum over the rows.
\<close>

definition VecSvec :: "real list \<Rightarrow> SparseVector \<Rightarrow> real" where
  "VecSvec vec v = sum_list (map (\<lambda>(i, x). vec ! i * x) (sv_pairs v))"

definition TraceMatSmat_kTrans :: "Matrix \<Rightarrow> SparseMatrix \<Rightarrow> real" where
  "TraceMatSmat_kTrans A S = sum_list (map2 VecSvec A S)"

text \<open>
  Modelled from the spec: \<^verbatim>\<open>CopyToMat\<close> of a sparse matrix, the dense view. A row is set to
  zero, then each pair is written.
\<close>

definition CopyElementsToVec :: "SparseVector \<Rightarrow> real list" where
  "CopyElementsToVec v =
     foldl (\<lambda>vec (i, x). vec[i := x]) (replicate (sv_dim v) 0) (sv_pairs v)"

definition SparseMatrix_CopyToMat :: "SparseMatrix \<Rightarrow> Matrix" where
  "SparseMatrix_CopyToMat S = map CopyElementsToVec S"

text \<open>
  The class invariant of a sparse vector (its indices are below the dimension and occur once)
  and of a matrix (all rows have the same length).
\<close>

definition SparseVector_ok :: "SparseVector \<Rightarrow> bool" where
  "SparseVector_ok v \<longleftrightarrow>
     distinct (map fst (sv_pairs v)) \<and> list_all (\<lambda>(i, x). i < sv_dim v) (sv_pairs v)"

definition SparseMatrix_ok :: "SparseMatrix \<Rightarrow> bool" where
  "SparseMatrix_ok S \<longleftrightarrow>
     list_all (\<lambda>v. SparseVector_ok v \<and> sv_dim v = SparseMatrix_NumCols S) S"

definition Matrix_ok :: "Matrix \<Rightarrow> bool" where
  "Matrix_ok M \<longleftrightarrow> list_all (\<lambda>row. length row = NumCols M) M"

text \<open>
  Modelled from the spec: the class CompressedMatrix, a lossy encoding that is materialized
  to a dense matrix on demand. The encoding itself is out of scope; a compressed matrix is
  represented by the matrix it decodes to.
\<close>

datatype CompressedMatrix = Compressed Matrix

fun CompressedMatrix_CopyToMat :: "CompressedMatrix \<Rightarrow> Matrix" where
  "CompressedMatrix_CopyToMat (Compressed M) = M"

text \<open>
  Modelled from the spec: the class GeneralMatrix, one of the three encodings, with its
  numbers of rows and columns.
\<close>

datatype GeneralMatrix =
    kFullMatrix Matrix
  | kCompressedMatrix CompressedMatrix
  | kSparseMatrix SparseMatrix

fun GeneralMatrix_NumRows :: "GeneralMatrix \<Rightarrow> nat" where
  "GeneralMatrix_NumRows (kFullMatrix M) = NumRows M"
| "GeneralMatrix_NumRows (kCompressedMatrix C) = NumRows (CompressedMatrix_CopyToMat C)"
| "GeneralMatrix_NumRows (kSparseMatrix S) = length S"

fun GeneralMatrix_NumCols :: "GeneralMatrix \<Rightarrow> nat" where
  "GeneralMatrix_NumCols (kFullMatrix M) = NumCols M"
| "GeneralMatrix_NumCols (kCompressedMatrix C) = NumCols (CompressedMatrix_CopyToMat C)"
| "GeneralMatrix_NumCols (kSparseMatrix S) = SparseMatrix_NumCols S"

text \<open>
  Modelled from the spec: \<^verbatim>\<open>GeneralMatrix::GetMatrix\<close> and \<^verbatim>\<open>CopyFromGeneralMat\<close>, the dense
  view of any encoding.
\<close>

fun GetMatrix :: "GeneralMatrix \<Rightarrow> Matrix" where
  "GetMatrix (kFullMatrix M) = M"
| "GetMatrix (kCompressedMatrix C) = CompressedMatrix_CopyToMat C"
| "GetMatrix (kSparseMatrix S) = SparseMatrix_CopyToMat S"

text \<open>A supervision that satisfies the invariant of its encoding.\<close>

fun GeneralMatrix_ok :: "GeneralMatrix \<Rightarrow> bool" where
  "GeneralMatrix_ok (kFullMatrix M) = Matrix_ok M"
| "GeneralMatrix_ok (kCompressedMatrix C) = Matrix_ok (CompressedMatrix_CopyToMat C)"
| "GeneralMatrix_ok (kSparseMatrix S) = SparseMatrix_ok S"

subsection \<open>Examples and objective kinds\<close>

text \<open>The members \<^verbatim>\<open>name\<close> and \<^verbatim>\<open>features\<close> of NnetIo.\<close>

record NnetIo =
  io_name :: string
  io_features :: GeneralMatrix

record NnetExample =
  io :: "NnetIo list"

text \<open>
  Modelled from the spec: the enumeration ObjectiveType, declared in nnet-nnet.h. The source
  handles kLinear and kQuadratic and has a default branch for any other value of the
  enumeration type.
\<close>

datatype ObjectiveType = kLinear | kQuadratic | kOtherObjective int

subsection \<open>ObjectiveFunctionInfo\<close>

record ObjectiveFunctionInfo =
  current_phase :: int32
  tot_weight :: real
  tot_objf :: real
  tot_aux_objf :: real
  tot_weight_this_phase :: real
  tot_objf_this_phase :: real
  tot_aux_objf_this_phase :: real

text \<open>
  Modelled from the spec: the default constructor of ObjectiveFunctionInfo, declared in
  nnet-training.h, which is what the statistics maps insert for a name that is absent. It
  starts in phase 0 with all totals zero.
\<close>

definition ObjectiveFunctionInfo_init :: ObjectiveFunctionInfo where
  "ObjectiveFunctionInfo_init =
     \<lparr> current_phase = 0, tot_weight = 0, tot_objf = 0, tot_aux_objf = 0,
       tot_weight_this_phase = 0, tot_objf_this_phase = 0, tot_aux_objf_this_phase = 0 \<rparr>"

definition PrintStatsForThisPhase ::
  "ObjectiveFunctionInfo \<Rightarrow> string \<Rightarrow> int32 \<Rightarrow> event list" where
  "PrintStatsForThisPhase info output_name minibatches_per_phase =
     (let start_minibatch = current_phase info * minibatches_per_phase;
          end_minibatch = start_minibatch + minibatches_per_phase - 1
      in if tot_aux_objf_this_phase info = 0 then
           [LogPhase output_name start_minibatch end_minibatch
              (BaseFloat_div (tot_objf_this_phase info) (tot_weight_this_phase info))
              (tot_weight_this_phase info)]
         else
           (let objf = BaseFloat_div (tot_objf_this_phase info) (tot_weight_this_phase info);
                aux_objf = BaseFloat_div (tot_aux_objf_this_phase info)
                             (tot_weight_this_phase info);
                sum_objf = BaseFloat_add objf aux_objf
            in [LogPhaseAux output_name start_minibatch end_minibatch objf aux_objf sum_objf
                  (tot_weight_this_phase info)]))"

text \<open>
  UpdateStats returns the updated statistics and the lines it logged. The last argument has
  the default value 0 in the declaration.
\<close>

definition UpdateStats ::
  "ObjectiveFunctionInfo \<Rightarrow> string \<Rightarrow> int32 \<Rightarrow> int32 \<Rightarrow> real \<Rightarrow> real \<Rightarrow> real
     \<Rightarrow> error + (ObjectiveFunctionInfo \<times> event list)" where
  "UpdateStats info output_name minibatches_per_phase minibatch_counter
       this_minibatch_weight this_minibatch_tot_objf this_minibatch_tot_aux_objf =
     (case int32_div minibatch_counter minibatches_per_phase of
        Inl e \<Rightarrow> Inl e
      | Inr phase \<Rightarrow>
          (case (if phase \<noteq> current_phase info then
                   (if current_phase info <s phase then
                      Inr (info\<lparr> current_phase := phase,
                                 tot_weight_this_phase := 0,
                                 tot_objf_this_phase := 0,
                                 tot_aux_objf_this_phase := 0 \<rparr>,
                           PrintStatsForThisPhase info output_name minibatches_per_phase)
                    else Inl (AssertFailed ''phase > current_phase''))
                 else Inr (info, [])) of
             Inl e \<Rightarrow> Inl e
           | Inr (info1, printed) \<Rightarrow>
               Inr (info1\<lparr>
                      tot_weight_this_phase :=
                        tot_weight_this_phase info1 + this_minibatch_weight,
                      tot_objf_this_phase :=
                        tot_objf_this_phase info1 + this_minibatch_tot_objf,
                      tot_aux_objf_this_phase :=
                        tot_aux_objf_this_phase info1 + this_minibatch_tot_aux_objf,
                      tot_weight := tot_weight info1 + this_minibatch_weight,
                      tot_objf := tot_objf info1 + this_minibatch_tot_objf,
                      tot_aux_objf := tot_aux_objf info1 + this_minibatch_tot_aux_objf \<rparr>,
                    printed)))"

definition ObjectiveFunctionInfo_PrintTotalStats ::
  "ObjectiveFunctionInfo \<Rightarrow> string \<Rightarrow> bool \<times> event list" where
  "ObjectiveFunctionInfo_PrintTotalStats info name =
     (let objf = BaseFloat_div (tot_objf info) (tot_weight info);
          aux_objf = BaseFloat_div (tot_aux_objf info) (tot_weight info);
          sum_objf = BaseFloat_add objf aux_objf
      in (tot_weight info \<noteq> 0,
          (if tot_aux_objf info = 0
           then [LogTotal name (BaseFloat_div (tot_objf info) (tot_weight info))
                   (tot_weight info)]
           else [LogTotalAux name objf aux_objf sum_objf (tot_weight info)])
          @ [LogParsed objf]))"

subsection \<open>The collaborators\<close>

text \<open>
  The network, the compiled computation, the executor and the random source are opaque: they
  are values of the type parameters \<open>'n\<close> (Nnet), \<open>'p\<close> (NnetComputation), \<open>'c\<close>
  (NnetComputer) and \<open>'g\<close> (the state of the C library's random source). The functions
  of nnet-utils, nnet-compute, nnet-optimize and nnet-diagnostics that the source calls are
  the fields of a record; every property below holds for any such functions. An object that
  the source changes through a pointer is passed in and returned.

  \<^item> \<open>Compile\<close> stands for GetComputationRequest followed by \<^verbatim>\<open>compiler_.Compile\<close>, with
    the arguments need\_model\_derivative and store\_component\_stats; the cache of the compiler
    changes the cost of a compilation only and is not represented.
  \<^item> \<open>Run\<close> executes the forward or the backward pass; it may change the network (component
    statistics), the delta network (accumulated derivatives) and the random source.
  \<^item> \<open>Components\<close> lists, for each component of a network, its name, whether its
    properties contain kUpdatableComponent, and whether the cast to UpdatableComponent
    succeeds.
  \<^item> \<open>OpenCache\<close> tells whether the file of the computation cache can be opened.
\<close>

record ComponentInfo =
  component_name :: string
  has_kUpdatableComponent :: bool
  is_UpdatableComponent :: bool

record ('n, 'p, 'c, 'g) collaborators =
  ZeroComponentStats :: "'n \<Rightarrow> 'n"
  ScaleNnet :: "real \<Rightarrow> 'n \<Rightarrow> 'n"
  NumUpdatableComponents :: "'n \<Rightarrow> nat"
  RandInt :: "int32 \<Rightarrow> int32 \<Rightarrow> 'g \<Rightarrow> int32 \<times> 'g"
  OpenCache :: "string \<Rightarrow> bool"
  Compile :: "'n \<Rightarrow> NnetExample \<Rightarrow> bool \<Rightarrow> bool \<Rightarrow> 'p"
  FreezeNaturalGradient :: "bool \<Rightarrow> 'n \<Rightarrow> 'n"
  srand :: "32 word \<Rightarrow> 'g \<Rightarrow> 'g"
  ResetGenerators :: "'n \<Rightarrow> 'n"
  NewComputer :: "'p \<Rightarrow> 'n \<Rightarrow> 'n \<Rightarrow> 'c"
  AcceptInputs :: "'n \<Rightarrow> NnetIo list \<Rightarrow> 'c \<Rightarrow> 'c"
  Run :: "'c \<Rightarrow> 'n \<Rightarrow> 'n \<Rightarrow> 'g \<Rightarrow> 'c \<times> 'n \<times> 'n \<times> 'g"
  GetOutput :: "'c \<Rightarrow> string \<Rightarrow> Matrix"
  AcceptInput :: "string \<Rightarrow> Matrix \<Rightarrow> 'c \<Rightarrow> 'c"
  GetNodeIndex :: "'n \<Rightarrow> string \<Rightarrow> int32"
  IsOutputNode :: "'n \<Rightarrow> int32 \<Rightarrow> bool"
  GetNode_objective_type :: "'n \<Rightarrow> int32 \<Rightarrow> ObjectiveType"
  ComputeAccuracy :: "GeneralMatrix \<Rightarrow> Matrix \<Rightarrow> real \<times> real"
  UpdateNnetWithMaxChange ::
    "'n \<Rightarrow> real \<Rightarrow> real \<Rightarrow> real \<Rightarrow> 'n \<Rightarrow> int32 list \<Rightarrow> int32
       \<Rightarrow> bool \<times> 'n \<times> int32 list \<times> int32"
  Components :: "'n \<Rightarrow> ComponentInfo list"

subsection \<open>ComputeObjectiveFunction\<close>

text \<open>
  The result is the computer, which has accepted the derivative when one is supplied, with
  \<^verbatim>\<open>*tot_weight\<close> and \<^verbatim>\<open>*tot_objf\<close>. In the sparse branch the source allocates the
  derivative with the dimensions of the output and overwrites all of it with the dense view
  of the supervision. The constructors of the device matrices copy or swap the host matrix
  and keep its entries.
\<close>

definition ComputeObjectiveFunction ::
  "('n, 'p, 'c, 'g) collaborators \<Rightarrow> GeneralMatrix \<Rightarrow> ObjectiveType \<Rightarrow> string \<Rightarrow> bool \<Rightarrow> 'c
     \<Rightarrow> error + ('c \<times> real \<times> real)" where
  "ComputeObjectiveFunction ext supervision objective_type output_name supply_deriv computer =
     (let output = GetOutput ext computer output_name in
      if NumCols output \<noteq> GeneralMatrix_NumCols supervision then
        Inl (KaldiError ''Nnet versus example output dimension (num-classes) mismatch'')
      else
        (case objective_type of
           kLinear \<Rightarrow>
             (case supervision of
                kSparseMatrix post \<Rightarrow>
                  (let cu_post = post;
                       tot_weight = SparseMatrix_Sum cu_post;
                       tot_objf = TraceMatSmat_kTrans output cu_post
                   in Inr (if supply_deriv
                           then AcceptInput ext output_name (SparseMatrix_CopyToMat cu_post)
                                  computer
                           else computer,
                           tot_weight, tot_objf))
              | kFullMatrix M \<Rightarrow>
                  (let cu_post = M;
                       tot_weight = Matrix_Sum cu_post;
                       tot_objf = TraceMatMat_kTrans output cu_post
                   in Inr (if supply_deriv then AcceptInput ext output_name cu_post computer
                           else computer,
                           tot_weight, tot_objf))
              | kCompressedMatrix C \<Rightarrow>
                  (let post = GetMatrix supervision;
                       cu_post = post;
                       tot_weight = Matrix_Sum cu_post;
                       tot_objf = TraceMatMat_kTrans output cu_post
                   in Inr (if supply_deriv then AcceptInput ext output_name cu_post computer
                           else computer,
                           tot_weight, tot_objf)))
         | kQuadratic \<Rightarrow>
             (let diff = AddMat (- 1) output (GetMatrix supervision);
                  tot_weight = real (NumRows diff);
                  tot_objf = - 0.5 * TraceMatMat_kTrans diff diff
              in Inr (if supply_deriv then AcceptInput ext output_name diff computer
                      else computer,
                      tot_weight, tot_objf))
         | kOtherObjective v \<Rightarrow>
             Inl (KaldiError ''Objective function type not handled.'')))"

subsection \<open>NnetTrainer\<close>

text \<open>The options that the functions below read.\<close>

record NnetTrainerOptions =
  zero_component_stats :: bool
  store_component_stats :: bool
  print_interval :: int32
  momentum :: real
  max_param_change :: real
  backstitch_training_scale :: real
  backstitch_training_interval :: int32
  read_cache :: string

text \<open>
  The members of the trainer, without the trailing underscore of the source. The statistics
  maps are association lists; the order of the entries stands for the unspecified order in
  which an unordered\_map is traversed. The last two fields belong to the process, not to the
  object: the state of the random source and the events so far.
\<close>

record ('n, 'g) NnetTrainer =
  config :: NnetTrainerOptions
  nnet :: 'n
  delta_nnet :: 'n
  objf_info :: "(string \<times> ObjectiveFunctionInfo) list"
  accuracy_info :: "(string \<times> ObjectiveFunctionInfo) list"
  num_minibatches_processed :: int32
  num_max_change_per_component_applied :: "int32 list"
  num_max_change_global_applied :: int32
  srand_seed :: int32
  rand_state :: 'g
  events :: "event list"

text \<open>\<^verbatim>\<open>map[key]\<close> inserts a default-constructed entry when the key is absent.\<close>

definition lookup_or_insert ::
  "(string \<times> ObjectiveFunctionInfo) list \<Rightarrow> string \<Rightarrow> ObjectiveFunctionInfo" where
  "lookup_or_insert m key =
     (case map_of m key of None \<Rightarrow> ObjectiveFunctionInfo_init | Some info \<Rightarrow> info)"

text \<open>
  The constructor. It receives the options, the network and the random state of the process.
  The copy of the network that becomes the delta network is a copy by value.
\<close>

definition NnetTrainer_new ::
  "('n, 'p, 'c, 'g) collaborators \<Rightarrow> NnetTrainerOptions \<Rightarrow> 'n \<Rightarrow> 'g
     \<Rightarrow> error + ('n, 'g) NnetTrainer" where
  "NnetTrainer_new ext conf net g =
     (let (seed, g1) = RandInt ext 0 100000 g;
          net1 = (if zero_component_stats conf then ZeroComponentStats ext net else net)
      in if \<not> (momentum conf \<ge> 0 \<and> max_param_change conf \<ge> 0) then
           Inl (AssertFailed ''config.momentum >= 0.0 && config.max_param_change >= 0.0'')
         else
           (let delta = ScaleNnet ext 0 net1;
                num_updatable = NumUpdatableComponents ext delta
            in Inr \<lparr> config = conf,
                     nnet = net1,
                     delta_nnet = delta,
                     objf_info = [],
                     accuracy_info = [],
                     num_minibatches_processed = 0,
                     num_max_change_per_component_applied = replicate num_updatable 0,
                     num_max_change_global_applied = 0,
                     srand_seed = seed,
                     rand_state = g1,
                     events =
                       (if read_cache conf \<noteq> []
                        then (if OpenCache ext (read_cache conf)
                              then [LogReadCache (read_cache conf)]
                              else [WarnCacheNotOpened])
                        else []) \<rparr>))"

text \<open>
  The condition that lines 67-68 and 106-107 of the source both evaluate: the minibatch is a
  backstitch boundary. The remainder is computed only when the scale is positive.
\<close>

definition is_backstitch_boundary :: "NnetTrainerOptions \<Rightarrow> int32 \<Rightarrow> error + bool" where
  "is_backstitch_boundary conf n =
     (if backstitch_training_scale conf > 0 then
        (case int32_mod n (backstitch_training_interval conf) of
           Inl e \<Rightarrow> Inl e
         | Inr r \<Rightarrow> Inr (r = 0))
      else Inr False)"

text \<open>
  ProcessOutputs: the body of the loop for one stream of the example, and the loop. The
  suffix is \<^verbatim>\<open>_backstitch\<close> in a backstitch step and empty otherwise.
\<close>

definition ProcessOutputs_body ::
  "('n, 'p, 'c, 'g) collaborators \<Rightarrow> string \<Rightarrow> NnetIo \<Rightarrow> ('n, 'g) NnetTrainer \<Rightarrow> 'c
     \<Rightarrow> error + (('n, 'g) NnetTrainer \<times> 'c)" where
  "ProcessOutputs_body ext suffix x s computer =
     (let node_index = GetNodeIndex ext (nnet s) (io_name x) in
      if \<not> (0 \<le>s node_index) then Inl (AssertFailed ''node_index >= 0'')
      else if IsOutputNode ext (nnet s) node_index then
        (let obj_type = GetNode_objective_type ext (nnet s) node_index;
             supply_deriv = True
         in case ComputeObjectiveFunction ext (io_features x) obj_type (io_name x)
                   supply_deriv computer of
              Inl e \<Rightarrow> Inl e
            | Inr (computer1, weight, objf) \<Rightarrow>
                (case UpdateStats (lookup_or_insert (objf_info s) (io_name x @ suffix))
                        (io_name x @ suffix) (print_interval (config s))
                        (num_minibatches_processed s) weight objf 0 of
                   Inl e \<Rightarrow> Inl e
                 | Inr (info, printed) \<Rightarrow>
                     (let s1 = s\<lparr> objf_info :=
                                     AList.update (io_name x @ suffix) info (objf_info s),
                                   events := events s @ printed \<rparr>
                      in if obj_type = kLinear then
                           (let output = GetOutput ext computer1 (io_name x);
                                (weight, accuracy) =
                                   ComputeAccuracy ext (io_features x) output
                            in case UpdateStats
                                      (lookup_or_insert (accuracy_info s1) (io_name x @ suffix))
                                      (io_name x @ suffix) (print_interval (config s1))
                                      (num_minibatches_processed s1) weight accuracy 0 of
                                 Inl e \<Rightarrow> Inl e
                               | Inr (info, printed) \<Rightarrow>
                                   Inr (s1\<lparr> accuracy_info :=
                                             AList.update (io_name x @ suffix) info
                                               (accuracy_info s1),
                                           events := events s1 @ printed \<rparr>,
                                        computer1))
                         else Inr (s1, computer1))))
      else Inr (s, computer))"

fun ProcessOutputs_loop ::
  "('n, 'p, 'c, 'g) collaborators \<Rightarrow> string \<Rightarrow> NnetIo list \<Rightarrow> ('n, 'g) NnetTrainer \<Rightarrow> 'c
     \<Rightarrow> error + (('n, 'g) NnetTrainer \<times> 'c)" where
  "ProcessOutputs_loop ext suffix [] s computer = Inr (s, computer)"
| "ProcessOutputs_loop ext suffix (x # rest) s computer =
     (case ProcessOutputs_body ext suffix x s computer of
        Inl e \<Rightarrow> Inl e
      | Inr (s1, computer1) \<Rightarrow> ProcessOutputs_loop ext suffix rest s1 computer1)"

definition ProcessOutputs ::
  "('n, 'p, 'c, 'g) collaborators \<Rightarrow> bool \<Rightarrow> NnetExample \<Rightarrow> ('n, 'g) NnetTrainer \<Rightarrow> 'c
     \<Rightarrow> error + (('n, 'g) NnetTrainer \<times> 'c)" where
  "ProcessOutputs ext is_backstitch_step eg s computer =
     (let suffix = (if is_backstitch_step then ''_backstitch'' else [])
      in ProcessOutputs_loop ext suffix (io eg) s computer)"

text \<open>
  Lines 102-123 of TrainInternal: max\_change\_scale, scale\_adding and scale\_delta\_nnet.
  The three are \<^verbatim>\<open>BaseFloat\<close> variables. The literals \<^verbatim>\<open>1.0\<close> are doubles, so
  \<^verbatim>\<open>1.0 - config_.momentum\<close> (line 103) and \<^verbatim>\<open>1.0 + config_.backstitch_training_scale\<close>
  (lines 119 and 120) are computed in \<^verbatim>\<open>double\<close> and then narrowed to \<^verbatim>\<open>BaseFloat\<close>; the
  other values are copies of a \<^verbatim>\<open>BaseFloat\<close>, its negation, or the constants 1.0 and 0.0,
  which both formats hold exactly.
\<close>

definition update_parameters ::
  "NnetTrainerOptions \<Rightarrow> int32 \<Rightarrow> bool \<Rightarrow> error + (real \<times> real \<times> real)" where
  "update_parameters conf n is_backstitch_step =
     (let max_change_scale = 1;
          scale_adding = BaseFloat_of_double (double_sub 1 (momentum conf));
          scale_delta_nnet = momentum conf
      in case is_backstitch_boundary conf n of
           Inl e \<Rightarrow> Inl e
         | Inr True \<Rightarrow>
             (if is_backstitch_step then
                Inr (backstitch_training_scale conf, - backstitch_training_scale conf, 0)
              else
                Inr (BaseFloat_of_double (double_add 1 (backstitch_training_scale conf)),
                     BaseFloat_of_double (double_add 1 (backstitch_training_scale conf)), 0))
         | Inr False \<Rightarrow> Inr (max_change_scale, scale_adding, scale_delta_nnet))"

text \<open>The forward or the backward pass, on the objects the computer points to.\<close>

definition run_computer ::
  "('n, 'p, 'c, 'g) collaborators \<Rightarrow> 'c \<Rightarrow> ('n, 'g) NnetTrainer \<Rightarrow> 'c \<times> ('n, 'g) NnetTrainer" where
  "run_computer ext computer s =
     (let (computer1, net, delta, g) = Run ext computer (nnet s) (delta_nnet s) (rand_state s)
      in (computer1, s\<lparr> nnet := net, delta_nnet := delta, rand_state := g \<rparr>))"

text \<open>
  TrainInternal, in three definitions: lines 93-100 (the computer is bound to the network
  and the delta network, runs the forward pass, the objectives are computed and the
  derivatives accepted, and the backward pass runs), lines 102-132 (the update of the
  network and the scaling of the delta network), and the function itself.
\<close>

definition forward_backward ::
  "('n, 'p, 'c, 'g) collaborators \<Rightarrow> NnetExample \<Rightarrow> 'p \<Rightarrow> bool \<Rightarrow> ('n, 'g) NnetTrainer
     \<Rightarrow> error + ('n, 'g) NnetTrainer" where
  "forward_backward ext eg computation is_backstitch_step s =
     (let computer = NewComputer ext computation (nnet s) (delta_nnet s);
          computer = AcceptInputs ext (nnet s) (io eg) computer;
          (computer, s) = run_computer ext computer s
      in case ProcessOutputs ext is_backstitch_step eg s computer of
           Inl e \<Rightarrow> Inl e
         | Inr (s, computer) \<Rightarrow>
             (let (computer, s) = run_computer ext computer s in Inr s))"

definition apply_update ::
  "('n, 'p, 'c, 'g) collaborators \<Rightarrow> bool \<Rightarrow> ('n, 'g) NnetTrainer
     \<Rightarrow> error + ('n, 'g) NnetTrainer" where
  "apply_update ext is_backstitch_step s =
     (case update_parameters (config s) (num_minibatches_processed s) is_backstitch_step of
        Inl e \<Rightarrow> Inl e
      | Inr (max_change_scale, scale_adding, scale_delta_nnet) \<Rightarrow>
          (let (success, net, per_component, global) =
                 UpdateNnetWithMaxChange ext (delta_nnet s)
                   (max_param_change (config s)) max_change_scale scale_adding
                   (nnet s) (num_max_change_per_component_applied s)
                   (num_max_change_global_applied s);
               s = s\<lparr> nnet := net,
                       num_max_change_per_component_applied := per_component,
                       num_max_change_global_applied := global,
                       events := events s @
                         [Call_UpdateNnetWithMaxChange (max_param_change (config s))
                            max_change_scale scale_adding success] \<rparr>
           in if success then
                Inr (s\<lparr> delta_nnet := ScaleNnet ext scale_delta_nnet (delta_nnet s),
                         events := events s @ [Call_ScaleNnet scale_delta_nnet] \<rparr>)
              else
                Inr (s\<lparr> delta_nnet := ScaleNnet ext 0 (delta_nnet s),
                         events := events s @ [Call_ScaleNnet 0] \<rparr>)))"

definition TrainInternal ::
  "('n, 'p, 'c, 'g) collaborators \<Rightarrow> NnetExample \<Rightarrow> 'p \<Rightarrow> bool \<Rightarrow> ('n, 'g) NnetTrainer
     \<Rightarrow> error + ('n, 'g) NnetTrainer" where
  "TrainInternal ext eg computation is_backstitch_step s =
     (case forward_backward ext eg computation is_backstitch_step
             (s\<lparr> events := events s @ [Call_TrainInternal is_backstitch_step] \<rparr>) of
        Inl e \<Rightarrow> Inl e
      | Inr s \<Rightarrow> apply_update ext is_backstitch_step s)"

text \<open>The calls of Train that act on the delta network, the random source and the network.\<close>

definition call_FreezeNaturalGradient ::
  "('n, 'p, 'c, 'g) collaborators \<Rightarrow> bool \<Rightarrow> ('n, 'g) NnetTrainer \<Rightarrow> ('n, 'g) NnetTrainer" where
  "call_FreezeNaturalGradient ext freeze s =
     s\<lparr> delta_nnet := FreezeNaturalGradient ext freeze (delta_nnet s),
        events := events s @ [Call_FreezeNaturalGradient freeze] \<rparr>"

definition call_srand ::
  "('n, 'p, 'c, 'g) collaborators \<Rightarrow> 32 word \<Rightarrow> ('n, 'g) NnetTrainer \<Rightarrow> ('n, 'g) NnetTrainer" where
  "call_srand ext seed s =
     s\<lparr> rand_state := srand ext seed (rand_state s),
        events := events s @ [Call_srand seed] \<rparr>"

definition call_ResetGenerators ::
  "('n, 'p, 'c, 'g) collaborators \<Rightarrow> ('n, 'g) NnetTrainer \<Rightarrow> ('n, 'g) NnetTrainer" where
  "call_ResetGenerators ext s =
     s\<lparr> nnet := ResetGenerators ext (nnet s),
        events := events s @ [Call_ResetGenerators] \<rparr>"

definition Train ::
  "('n, 'p, 'c, 'g) collaborators \<Rightarrow> NnetExample \<Rightarrow> ('n, 'g) NnetTrainer
     \<Rightarrow> error + ('n, 'g) NnetTrainer" where
  "Train ext eg s =
     (let need_model_derivative = True;
          computation = Compile ext (nnet s) eg need_model_derivative
                          (store_component_stats (config s))
      in case (case is_backstitch_boundary (config s) (num_minibatches_processed s) of
                 Inl e \<Rightarrow> Inl e
               | Inr True \<Rightarrow>
                   (if \<not> (momentum (config s) = 0) then
                      Inl (AssertFailed ''config_.momentum == 0.0'')
                    else
                      (let s = call_FreezeNaturalGradient ext True s;
                           is_backstitch_step = True;
                           s = call_srand ext
                                 (srand_seed s + num_minibatches_processed s) s;
                           s = call_ResetGenerators ext s
                       in case TrainInternal ext eg computation is_backstitch_step s of
                            Inl e \<Rightarrow> Inl e
                          | Inr s \<Rightarrow>
                              (let s = call_FreezeNaturalGradient ext False s;
                                   is_backstitch_step = False;
                                   s = call_srand ext
                                         (srand_seed s + num_minibatches_processed s) s;
                                   s = call_ResetGenerators ext s
                               in TrainInternal ext eg computation is_backstitch_step s)))
               | Inr False \<Rightarrow>
                   (let is_backstitch_step = False
                    in TrainInternal ext eg computation is_backstitch_step s)) of
           Inl e \<Rightarrow> Inl e
         | Inr s \<Rightarrow>
             Inr (s\<lparr> num_minibatches_processed := num_minibatches_processed s + 1 \<rparr>))"

text \<open>The events that are calls made by Train itself.\<close>

fun is_Train_call :: "event \<Rightarrow> bool" where
  "is_Train_call (Call_srand seed) = True"
| "is_Train_call Call_ResetGenerators = True"
| "is_Train_call (Call_FreezeNaturalGradient freeze) = True"
| "is_Train_call (Call_TrainInternal is_backstitch_step) = True"
| "is_Train_call e = False"

text \<open>
  PrintMaxChangeStats returns the lines it logs. The delta network of the model is a value,
  so the assertion that the pointer is not null cannot fail. The double that is printed is
  \<open>100 * count / num_minibatches_processed / (2 or 1)\<close>.
\<close>

definition max_change_percent :: "('n, 'g) NnetTrainer \<Rightarrow> int32 \<Rightarrow> real option" where
  "max_change_percent s count =
     map_option
       (\<lambda>q. q / (if backstitch_training_scale (config s) > 0 then 2 else 1))
       (BaseFloat_div (100 * real_of_int (sint count))
          (real_of_int (sint (num_minibatches_processed s))))"

fun PrintMaxChangeStats_loop ::
  "('n, 'g) NnetTrainer \<Rightarrow> ComponentInfo list \<Rightarrow> nat \<Rightarrow> error + event list" where
  "PrintMaxChangeStats_loop s [] i = Inr []"
| "PrintMaxChangeStats_loop s (component # rest) i =
     (if has_kUpdatableComponent component then
        (if \<not> is_UpdatableComponent component then
           Inl (KaldiError ''Updatable component does not inherit from class UpdatableComponent; change this code.'')
         else if \<not> (i < length (num_max_change_per_component_applied s)) then Inl OutOfRange
         else
           (case PrintMaxChangeStats_loop s rest (i + 1) of
              Inl e \<Rightarrow> Inl e
            | Inr printed \<Rightarrow>
                Inr ((if 0 <s num_max_change_per_component_applied s ! i
                      then [LogMaxChangeComponent (component_name component)
                              (max_change_percent s
                                 (num_max_change_per_component_applied s ! i))]
                      else []) @ printed)))
      else PrintMaxChangeStats_loop s rest i)"

definition PrintMaxChangeStats ::
  "('n, 'p, 'c, 'g) collaborators \<Rightarrow> ('n, 'g) NnetTrainer \<Rightarrow> error + event list" where
  "PrintMaxChangeStats ext s =
     (case PrintMaxChangeStats_loop s (Components ext (delta_nnet s)) 0 of
        Inl e \<Rightarrow> Inl e
      | Inr printed \<Rightarrow>
          Inr (printed @
               (if 0 <s num_max_change_global_applied s
                then [LogMaxChangeGlobal (max_change_percent s (num_max_change_global_applied s))]
                else [])))"

text \<open>
  The loop \<^verbatim>\<open>ans = ans || info.PrintTotalStats(name)\<close>: the operator does not evaluate its
  right operand once \<open>ans\<close> is true, so the remaining entries are not printed.
\<close>

fun PrintTotalStats_loop ::
  "bool \<Rightarrow> (string \<times> ObjectiveFunctionInfo) list \<Rightarrow> bool \<times> event list" where
  "PrintTotalStats_loop ans [] = (ans, [])"
| "PrintTotalStats_loop ans ((key, info) # rest) =
     (if ans then PrintTotalStats_loop ans rest
      else
        (let (ans1, printed) = ObjectiveFunctionInfo_PrintTotalStats info key;
             (ans2, printed2) = PrintTotalStats_loop ans1 rest
         in (ans2, printed @ printed2)))"

definition PrintTotalStats ::
  "('n, 'p, 'c, 'g) collaborators \<Rightarrow> ('n, 'g) NnetTrainer \<Rightarrow> error + (bool \<times> event list)" where
  "PrintTotalStats ext s =
     (let ans = False;
          (ans, printed) = PrintTotalStats_loop ans (objf_info s);
          ans = False;
          (ans, printed2) = PrintTotalStats_loop ans (accuracy_info s)
      in case PrintMaxChangeStats ext s of
           Inl e \<Rightarrow> Inl e
         | Inr printed3 \<Rightarrow> Inr (ans, printed @ [LogAccuracyHeader] @ printed2 @ printed3))"

text \<open>
  The scenario of the phase-flushing property: UpdateStats is called once for each element of
  a list of (weight, objf, aux\_objf) triples, for one output name, the minibatch counter
  starting at \<open>c\<close> and growing by one from call to call, as it does in ProcessOutputs over
  successive calls of Train. The lines logged are collected in order.
\<close>

fun UpdateStats_seq ::
  "ObjectiveFunctionInfo \<Rightarrow> string \<Rightarrow> int32 \<Rightarrow> int32 \<Rightarrow> (real \<times> real \<times> real) list
     \<Rightarrow> error + (ObjectiveFunctionInfo \<times> event list)" where
  "UpdateStats_seq info name K c [] = Inr (info, [])"
| "UpdateStats_seq info name K c ((w, objf, aux) # xs) =
     (case UpdateStats info name K c w objf aux of
        Inl e \<Rightarrow> Inl e
      | Inr (info1, printed) \<Rightarrow>
          (case UpdateStats_seq info1 name K (c + 1) xs of
             Inl e \<Rightarrow> Inl e
           | Inr (info2, printed2) \<Rightarrow> Inr (info2, printed @ printed2)))"

text \<open>The output name and the minibatch range reported by a line that flushes a phase.\<close>

fun phase_flush :: "event \<Rightarrow> (string \<times> int \<times> int) option" where
  "phase_flush (LogPhase n s e _ _) = Some (n, sint s, sint e)"
| "phase_flush (LogPhaseAux n s e _ _ _ _) = Some (n, sint s, sint e)"
| "phase_flush _ = None"



subsection \<open>A concrete instance\<close>

text \<open>
  Collaborators, options, an example and a trainer on which the properties below are
  evaluated. The network is the list of its parameters, the random state is the last seed
  plus the number of passes run since, a pass adds 1 to every entry of the delta network,
  and the update adds the scaled delta to the network and reports failure when
  max\_param\_change is not positive.
\<close>

definition ext_example :: "(real list, unit, unit, 32 word) collaborators" where
  "ext_example =
     \<lparr> ZeroComponentStats = (\<lambda>net. net),
       ScaleNnet = (\<lambda>scale net. map ((*) scale) net),
       NumUpdatableComponents = (\<lambda>net. 1),
       RandInt = (\<lambda>lo hi g. (lo + 7, g + 1)),
       OpenCache = (\<lambda>path. False),
       Compile = (\<lambda>net eg need_model_derivative store_stats. ()),
       FreezeNaturalGradient = (\<lambda>freeze net. net),
       srand = (\<lambda>seed g. seed),
       ResetGenerators = (\<lambda>net. net),
       NewComputer = (\<lambda>computation net delta. ()),
       AcceptInputs = (\<lambda>net xs computer. computer),
       Run = (\<lambda>computer net delta g. (computer, net, map (\<lambda>x. x + 1) delta, g + 1)),
       GetOutput = (\<lambda>computer output_name. [ [- 1, - 2] ]),
       AcceptInput = (\<lambda>output_name M computer. computer),
       GetNodeIndex = (\<lambda>net node_name. 0),
       IsOutputNode = (\<lambda>net node_index. True),
       GetNode_objective_type = (\<lambda>net node_index. kLinear),
       ComputeAccuracy = (\<lambda>supervision output. (1, 1)),
       UpdateNnetWithMaxChange =
         (\<lambda>delta max_param_change max_change_scale scale_adding net per_component global.
            (0 < max_param_change,
             if 0 < max_param_change then map2 (\<lambda>x d. x + scale_adding * d) net delta
             else net,
             per_component, global)),
       Components = (\<lambda>net. []) \<rparr>"

definition conf_example :: "real \<Rightarrow> real \<Rightarrow> real \<Rightarrow> NnetTrainerOptions" where
  "conf_example m change scale =
     \<lparr> zero_component_stats = False, store_component_stats = False, print_interval = 2,
       momentum = m, max_param_change = change, backstitch_training_scale = scale,
       backstitch_training_interval = 3, read_cache = [] \<rparr>"

definition eg_example :: NnetExample where
  "eg_example =
     \<lparr> io = [\<lparr> io_name = ''output'',
                io_features = kSparseMatrix [\<lparr> sv_dim = 2, sv_pairs = [(1, 1)] \<rparr>] \<rparr>] \<rparr>"

definition trainer_example :: "NnetTrainerOptions \<Rightarrow> int32 \<Rightarrow> (real list, 32 word) NnetTrainer" where
  "trainer_example conf n =
     \<lparr> config = conf, nnet = [3], delta_nnet = [0], objf_info = [], accuracy_info = [],
       num_minibatches_processed = n, num_max_change_per_component_applied = [0],
       num_max_change_global_applied = 0, srand_seed = 7, rand_state = 1, events = [] \<rparr>"

definition info_example :: "int32 \<Rightarrow> real \<Rightarrow> ObjectiveFunctionInfo" where
  "info_example phase w =
     \<lparr> current_phase = phase, tot_weight = w, tot_objf = - 6, tot_aux_objf = 0,
       tot_weight_this_phase = 2, tot_objf_this_phase = - 4, tot_aux_objf_this_phase = 0 \<rparr>"

section \<open>Properties\<close>

subsection \<open>Arithmetic on int32\<close>

lemma sint_of_nat32: "n < 2 ^ 31 \<Longrightarrow> sint (of_nat n :: int32) = int n"
  by (simp add: signed_of_nat signed_take_bit_int_eq_self)


lemma of_nat32_inj: "a < 2 ^ 31 \<Longrightarrow> b < 2 ^ 31 \<Longrightarrow> (of_nat a :: int32) = of_nat b \<longleftrightarrow> a = b"
  by (metis of_nat_eq_iff sint_of_nat32)

lemma of_nat32_sless: "a < 2 ^ 31 \<Longrightarrow> b < 2 ^ 31 \<Longrightarrow> (of_nat a :: int32) <s of_nat b \<longleftrightarrow> a < b"
  by (simp add: word_sless_alt sint_of_nat32)

lemma sint_INT32_MIN: "sint INT32_MIN = - (2 ^ 31)"
  by (simp add: INT32_MIN_def)

lemma of_nat32_not_min: "a < 2 ^ 31 \<Longrightarrow> (of_nat a :: int32) \<noteq> INT32_MIN"
proof
  assume a: "a < 2 ^ 31" and e: "(of_nat a :: int32) = INT32_MIN"
  have "sint (of_nat a :: int32) = int a" using a by (rule sint_of_nat32)
  with e have "int a = - (2 ^ 31)" by (simp add: sint_INT32_MIN)
  then have "int a < 0" by simp
  then show False by simp
qed

lemma sdiv_nat: "int a sdiv int b = int (a div b)"
  by (simp add: signed_divide_int_def sgn_if zdiv_int)

lemma int32_div_of_nat:
  assumes "1 \<le> K" "K < 2 ^ 31" "c < 2 ^ 31"
  shows "int32_div (of_nat c) (of_nat K) = Inr (of_nat (c div K))"
proof -
  have k0: "(of_nat K :: int32) \<noteq> 0"
    using of_nat32_inj [of K 0] assms by simp
  show ?thesis
    using assms k0 by (simp add: int32_div_def of_nat32_not_min sint_of_nat32 sdiv_nat)
qed

lemma sint_word_of_int32: "- (2 ^ 31) \<le> x \<Longrightarrow> x < 2 ^ 31 \<Longrightarrow> sint (word_of_int x :: int32) = x"
  by (simp add: sint_sbintrunc' signed_take_bit_int_eq_self)

lemma smod_zero_iff: "(a :: int) smod b = 0 \<longleftrightarrow> b dvd a"
proof -
  have "(a smod b = 0) = (\<bar>a\<bar> mod \<bar>b\<bar> = 0)"
    by (cases "a = 0") (simp_all add: signed_modulo_int_def sgn_if)
  also have "\<dots> = (\<bar>b\<bar> dvd \<bar>a\<bar>)" by (simp add: dvd_eq_mod_eq_0)
  also have "\<dots> = (b dvd a)" by simp
  finally show ?thesis .
qed

lemma smod_bound: "b \<noteq> 0 \<Longrightarrow> \<bar>(a :: int) smod b\<bar> < \<bar>b\<bar>"
proof -
  assume b: "b \<noteq> 0"
  have nn: "0 \<le> \<bar>a\<bar> mod \<bar>b\<bar>" using b by simp
  have "\<bar>a smod b\<bar> = \<bar>sgn a\<bar> * (\<bar>a\<bar> mod \<bar>b\<bar>)"
    using nn by (simp add: signed_modulo_int_def abs_mult)
  also have "\<dots> \<le> \<bar>a\<bar> mod \<bar>b\<bar>"
    using nn by (cases "a = 0") (simp_all add: abs_sgn_eq)
  also have "\<dots> < \<bar>b\<bar>" using b by simp
  finally show ?thesis .
qed

lemma int32_mod_zero_iff:
  assumes "int32_mod n k = Inr r"
  shows "r = 0 \<longleftrightarrow> sint k dvd sint n"
proof -
  from assms have k: "k \<noteq> 0" and r: "r = word_of_int (sint n smod sint k)"
    by (auto simp: int32_mod_def split: if_splits)
  from k have k': "sint k \<noteq> 0" by (metis sint_0 signed_word_eqI)
  have "\<bar>sint n smod sint k\<bar> < \<bar>sint k\<bar>" using k' by (rule smod_bound)
  moreover have "\<bar>sint k\<bar> \<le> 2 ^ 31"
    using sint_ge [of k] sint_lt [of k] by simp
  ultimately have b: "- (2 ^ 31) \<le> sint n smod sint k" "sint n smod sint k < 2 ^ 31"
    by linarith+
  have "sint r = sint n smod sint k"
    unfolding r using b by (rule sint_word_of_int32)
  moreover have "r = 0 \<longleftrightarrow> sint r = 0" by (metis sint_0 signed_word_eqI)
  ultimately show ?thesis by (simp add: smod_zero_iff)
qed

subsection \<open>Phase flushing\<close>

lemma UpdateStats_step:
  assumes K: "1 \<le> K" "K < 2 ^ 31" and c: "c < 2 ^ 31"
    and q: "current_phase info = of_nat q" "q \<le> c div K" "c div K \<le> q + 1"
  shows "\<exists>info1 printed.
           UpdateStats info name (of_nat K) (of_nat c) w objf aux = Inr (info1, printed) \<and>
           current_phase info1 = of_nat (c div K) \<and>
           map phase_flush printed =
             map (\<lambda>p. Some (name, int p * int K, (int p + 1) * int K - 1)) [q..<c div K]"
proof (cases "c div K = q")
  case True
  then show ?thesis
    using assms by (simp add: UpdateStats_def int32_div_of_nat)
next
  case False
  with q have qq: "c div K = Suc q" by simp
  have "(c div K) * K \<le> c" by simp
  with qq have le: "Suc q * K \<le> c" by simp
  have "Suc q * 1 \<le> Suc q * K" using K(1) by (rule mult_le_mono2)
  with le have "Suc q \<le> c" by simp
  with le have b1: "q * K < 2 ^ 31" and b2: "q * K + K - 1 < 2 ^ 31"
    and b3: "q < 2 ^ 31" and b4: "Suc q < 2 ^ 31"
    using c K by simp_all
  have s: "sint (of_nat q * of_nat K :: int32) = int q * int K"
    using sint_of_nat32 [OF b1] by simp
  have "(of_nat q * of_nat K + of_nat K - 1 :: int32) = of_nat (q * K + K - 1)"
    using K by (simp add: of_nat_diff)
  then have e: "sint (of_nat q * of_nat K + of_nat K - 1 :: int32) = (int q + 1) * int K - 1"
    using sint_of_nat32 [OF b2] K by (simp add: of_nat_diff algebra_simps)
  have ne: "(of_nat (Suc q) :: int32) \<noteq> of_nat q"
    using of_nat32_inj [OF b4 b3] by simp
  have lt: "(of_nat q :: int32) <s of_nat (Suc q)"
    using of_nat32_sless [OF b3 b4] by simp
  have d: "int32_div (of_nat c) (of_nat K) = Inr (of_nat (Suc q))"
    using int32_div_of_nat [OF K c] qq by simp
  show ?thesis
    unfolding UpdateStats_def d qq
    using ne lt s e q(1) by (simp add: PrintStatsForThisPhase_def Let_def)
qed

lemma upt_split: "i \<le> j \<Longrightarrow> j \<le> k \<Longrightarrow> [i..<j] @ [j..<k] = [i..<k]"
  using upt_add_eq_append [of i j "k - j"] by simp

lemma Suc_div_le: "1 \<le> K \<Longrightarrow> Suc c div K \<le> c div K + 1"
proof -
  assume "1 \<le> K"
  then have "Suc c \<le> c + K" by simp
  then have "Suc c div K \<le> (c + K) div K" by (rule div_le_mono)
  also have "\<dots> = c div K + 1" using \<open>1 \<le> K\<close> by simp
  finally show ?thesis .
qed

lemma UpdateStats_seq_gen:
  assumes K: "1 \<le> K" "K < 2 ^ 31"
  shows "current_phase info = of_nat q \<Longrightarrow> c + length xs \<le> 2 ^ 31 \<Longrightarrow>
         q \<le> c div K \<Longrightarrow> c div K \<le> q + 1 \<Longrightarrow>
         \<exists>info2 printed.
           UpdateStats_seq info name (of_nat K) (of_nat c) xs = Inr (info2, printed) \<and>
           map phase_flush printed =
             map (\<lambda>p. Some (name, int p * int K, (int p + 1) * int K - 1))
               [q..<(if xs = [] then q else (c + length xs - 1) div K)]"
proof (induction xs arbitrary: info q c)
  case Nil
  then show ?case by simp
next
  case (Cons x xs)
  obtain w objf aux where x: "x = (w, objf, aux)" by (cases x)
  from Cons.prems have c: "c < 2 ^ 31" by simp
  from UpdateStats_step [OF K c Cons.prems(1,3,4), of name w objf aux]
  obtain info1 printed where
    u: "UpdateStats info name (of_nat K) (of_nat c) w objf aux = Inr (info1, printed)"
    and p1: "current_phase info1 = of_nat (c div K)"
    and f1: "map phase_flush printed =
             map (\<lambda>p. Some (name, int p * int K, (int p + 1) * int K - 1)) [q..<c div K]"
    by blast
  have m1: "c div K \<le> Suc c div K" by (simp add: div_le_mono)
  have m2: "Suc c div K \<le> c div K + 1" using K(1) by (rule Suc_div_le)
  from Cons.prems have l: "Suc c + length xs \<le> 2 ^ 31" by simp
  from Cons.IH [OF p1 l m1 m2]
  obtain info2 printed2 where
    r: "UpdateStats_seq info1 name (of_nat K) (of_nat (Suc c)) xs = Inr (info2, printed2)"
    and f2: "map phase_flush printed2 =
             map (\<lambda>p. Some (name, int p * int K, (int p + 1) * int K - 1))
               [c div K..<(if xs = [] then c div K else (Suc c + length xs - 1) div K)]"
    by blast
  have r': "UpdateStats_seq info1 name (of_nat K) (of_nat c + 1) xs = Inr (info2, printed2)"
    using r by (simp add: add.commute)
  have m3: "c div K \<le> (c + length xs) div K" by (simp add: div_le_mono)
  have app: "[q..<c div K] @ [c div K..<(if xs = [] then c div K else (Suc c + length xs - 1) div K)]
        = [q..<(c + length (x # xs) - 1) div K]"
    using Cons.prems(3) m3 by (simp add: upt_split)
  have "map phase_flush (printed @ printed2) =
      map (\<lambda>p. Some (name, int p * int K, (int p + 1) * int K - 1))
        ([q..<c div K] @ [c div K..<(if xs = [] then c div K else (Suc c + length xs - 1) div K)])"
    unfolding map_append f1 f2 ..
  then have "map phase_flush (printed @ printed2) =
      map (\<lambda>p. Some (name, int p * int K, (int p + 1) * int K - 1))
        [q..<(c + length (x # xs) - 1) div K]"
    unfolding app .
  then show ?case
    using u r' by (simp add: x)
qed

text \<open>
  C8 (as amended). For every \<open>N \<ge> 1\<close> and \<open>K \<ge> 1\<close> that fit an int32, calling UpdateStats
  for a single output name \<open>N\<close> times with the minibatch counters \<open>0, 1, ..., N - 1\<close> and
  \<open>K\<close> minibatches per phase succeeds and logs exactly \<open>(N - 1) div K\<close> phase flushes and
  nothing else; the flush of phase \<open>p\<close> reports the minibatch range from \<open>p * K\<close> to
  \<open>(p + 1) * K - 1\<close>. A phase is flushed by the first call of the next phase, so the last
  phase is never flushed by UpdateStats.
\<close>

theorem UpdateStats_phase_flushes:
  assumes "1 \<le> K" and "K < 2 ^ 31" and "1 \<le> N" and "N \<le> 2 ^ 31" and "length xs = N"
  shows "\<exists>info printed.
           UpdateStats_seq ObjectiveFunctionInfo_init name (of_nat K) 0 xs = Inr (info, printed) \<and>
           length printed = (N - 1) div K \<and>
           map phase_flush printed =
             map (\<lambda>p. Some (name, int p * int K, (int p + 1) * int K - 1)) [0..<(N - 1) div K]"
proof -
  have ne: "xs \<noteq> []" using assms(3,5) by auto
  have "current_phase ObjectiveFunctionInfo_init = of_nat 0"
    by (simp add: ObjectiveFunctionInfo_init_def)
  from UpdateStats_seq_gen [OF assms(1,2) this, of 0 xs name]
  obtain info printed where
    r: "UpdateStats_seq ObjectiveFunctionInfo_init name (of_nat K) 0 xs = Inr (info, printed)"
    and f: "map phase_flush printed =
             map (\<lambda>p. Some (name, int p * int K, (int p + 1) * int K - 1)) [0..<(N - 1) div K]"
    using assms(4,5) ne by auto
  from f have "length (map phase_flush printed) = length [0..<(N - 1) div K]"
    by (simp only: length_map)
  then have "length printed = (N - 1) div K" by simp
  with r f show ?thesis by blast
qed

theorem UpdateStats_phase_flushes_witness:
  "(1::nat) \<le> 2 \<and> (2::nat) < 2 ^ 31 \<and> (1::nat) \<le> 6 \<and> (6::nat) \<le> 2 ^ 31 \<and>
   length [(1, - 2, 0), (1, - 1, 0), (2, - 3, 1), (1, - 1, 0), (1, - 1, 0), (1::real, - 1::real, 0::real)] = 6 \<and>
   (\<exists>info printed.
      UpdateStats_seq ObjectiveFunctionInfo_init ''output'' 2 0
        [(1, - 2, 0), (1, - 1, 0), (2, - 3, 1), (1, - 1, 0), (1, - 1, 0), (1, - 1, 0)]
        = Inr (info, printed) \<and>
      length printed = 2 \<and>
      map phase_flush printed = [Some (''output'', 0, 1), Some (''output'', 2, 3)])"
  using UpdateStats_phase_flushes [of 2 6
      "[(1, - 2, 0), (1, - 1, 0), (2, - 3, 1), (1, - 1, 0), (1, - 1, 0), (1, - 1, 0)]" "''output''"]
  by (simp add: upt_rec)

text \<open>
  C8 as stated fails: one minibatch with one minibatch per phase causes no flush, where the
  claim counts \<open>1 div 1 = 1\<close>.
\<close>

theorem UpdateStats_phase_flushes_counterexample:
  "map_sum id (length \<circ> snd)
     (UpdateStats_seq ObjectiveFunctionInfo_init ''output'' 1 0 [(1, - 1, 0)]) = Inr 0 \<and>
   (0::nat) \<noteq> 1 div 1"
  by (simp add: UpdateStats_def int32_div_def INT32_MIN_def ObjectiveFunctionInfo_init_def)

subsection \<open>The phase of the statistics only advances\<close>

text \<open>
  C9. A call of UpdateStats whose phase (the minibatch counter divided by the number of
  minibatches per phase) is smaller than the stored phase fails on the assertion. A call that
  returns leaves the stored phase equal to the computed phase, which is not smaller than the
  stored phase before the call. When the phase advances, the line logged is the one
  PrintStatsForThisPhase prints from the statistics before the call (the completed phase), and
  the per-phase totals are set to zero before the minibatch is added, so that they hold this
  minibatch alone. When the phase does not advance, nothing is logged and the minibatch is
  added to the per-phase totals.
\<close>

theorem UpdateStats_phase_order:
  "(int32_div minibatch_counter minibatches_per_phase = Inr phase \<and>
      phase <s current_phase info \<longrightarrow>
      UpdateStats info name minibatches_per_phase minibatch_counter w objf aux =
        Inl (AssertFailed ''phase > current_phase'')) \<and>
   (UpdateStats info name minibatches_per_phase minibatch_counter w objf aux =
        Inr (info1, printed) \<longrightarrow>
      int32_div minibatch_counter minibatches_per_phase = Inr (current_phase info1) \<and>
      current_phase info \<le>s current_phase info1 \<and>
      (current_phase info1 \<noteq> current_phase info \<longrightarrow>
         current_phase info <s current_phase info1 \<and>
         printed = PrintStatsForThisPhase info name minibatches_per_phase \<and>
         tot_weight_this_phase info1 = 0 + w \<and>
         tot_objf_this_phase info1 = 0 + objf \<and>
         tot_aux_objf_this_phase info1 = 0 + aux) \<and>
      (current_phase info1 = current_phase info \<longrightarrow>
         printed = [] \<and>
         tot_weight_this_phase info1 = tot_weight_this_phase info + w \<and>
         tot_objf_this_phase info1 = tot_objf_this_phase info + objf \<and>
         tot_aux_objf_this_phase info1 = tot_aux_objf_this_phase info + aux))"
proof (intro conjI impI)
  assume a: "int32_div minibatch_counter minibatches_per_phase = Inr phase \<and>
      phase <s current_phase info"
  then have "phase \<noteq> current_phase info" and "\<not> current_phase info <s phase"
    by auto
  with a show "UpdateStats info name minibatches_per_phase minibatch_counter w objf aux =
        Inl (AssertFailed ''phase > current_phase'')"
    by (simp add: UpdateStats_def)
next
  assume r: "UpdateStats info name minibatches_per_phase minibatch_counter w objf aux =
        Inr (info1, printed)"
  then obtain phase where d: "int32_div minibatch_counter minibatches_per_phase = Inr phase"
    by (auto simp: UpdateStats_def split: sum.splits)
  show "int32_div minibatch_counter minibatches_per_phase = Inr (current_phase info1)"
    using r d by (auto simp: UpdateStats_def split: if_splits)
  show "current_phase info \<le>s current_phase info1"
    using r d by (auto simp: UpdateStats_def split: if_splits)
  { assume "current_phase info1 \<noteq> current_phase info"
    then show "current_phase info <s current_phase info1"
      and "printed = PrintStatsForThisPhase info name minibatches_per_phase"
      and "tot_weight_this_phase info1 = 0 + w"
      and "tot_objf_this_phase info1 = 0 + objf"
      and "tot_aux_objf_this_phase info1 = 0 + aux"
      using r d by (auto simp: UpdateStats_def split: if_splits) }
  { assume "current_phase info1 = current_phase info"
    then show "printed = []"
      and "tot_weight_this_phase info1 = tot_weight_this_phase info + w"
      and "tot_objf_this_phase info1 = tot_objf_this_phase info + objf"
      and "tot_aux_objf_this_phase info1 = tot_aux_objf_this_phase info + aux"
      using r d by (auto simp: UpdateStats_def split: if_splits) }
qed

theorem UpdateStats_phase_order_witness:
  "(int32_div 1 2 = Inr 0 \<and> 0 <s current_phase (info_example 1 3) \<and>
    UpdateStats (info_example 1 3) ''output'' 2 1 1 (- 1) 0 =
      Inl (AssertFailed ''phase > current_phase'')) \<and>
   (UpdateStats (info_example 1 3) ''output'' 2 4 1 (- 1) 0 =
      Inr (\<lparr> current_phase = 2, tot_weight = 4, tot_objf = - 7, tot_aux_objf = 0,
             tot_weight_this_phase = 1, tot_objf_this_phase = - 1,
             tot_aux_objf_this_phase = 0 \<rparr>,
           [LogPhase ''output'' 2 3 (Some (- 2)) 2]) \<and>
    current_phase (info_example 1 3) <s 2) \<and>
   (UpdateStats (info_example 1 3) ''output'' 2 3 1 (- 1) 0 =
      Inr (\<lparr> current_phase = 1, tot_weight = 4, tot_objf = - 7, tot_aux_objf = 0,
             tot_weight_this_phase = 3, tot_objf_this_phase = - 5,
             tot_aux_objf_this_phase = 0 \<rparr>,
           []))"
  using UpdateStats_phase_order [of 1 2 0 "info_example 1 3" "''output''" 1 "- 1" 0]
    UpdateStats_phase_order [of 4 2 0 "info_example 1 3" "''output''" 1 "- 1" 0
      "\<lparr> current_phase = 2, tot_weight = 4, tot_objf = - 7, tot_aux_objf = 0,
         tot_weight_this_phase = 1, tot_objf_this_phase = - 1,
         tot_aux_objf_this_phase = 0 \<rparr>"
      "[LogPhase ''output'' 2 3 (Some (- 2)) 2]"]
    UpdateStats_phase_order [of 3 2 0 "info_example 1 3" "''output''" 1 "- 1" 0
      "\<lparr> current_phase = 1, tot_weight = 4, tot_objf = - 7, tot_aux_objf = 0,
         tot_weight_this_phase = 3, tot_objf_this_phase = - 5,
         tot_aux_objf_this_phase = 0 \<rparr>"
      "[]"]
  by (simp add: info_example_def UpdateStats_def PrintStatsForThisPhase_def int32_div_def
        INT32_MIN_def BaseFloat_div_def word_sless_alt signed_divide_int_def)

subsection \<open>The value returned by PrintTotalStats\<close>

lemma PrintTotalStats_loop_ans:
  "fst (PrintTotalStats_loop ans m) = (ans \<or> (\<exists>x \<in> set m. tot_weight (snd x) \<noteq> 0))"
proof (induction m arbitrary: ans)
  case Nil
  show ?case by simp
next
  case (Cons x m)
  obtain key info where x: "x = (key, info)" by (cases x)
  show ?case
    using Cons.IH [of True] Cons.IH [of "tot_weight info \<noteq> 0"]
    by (simp add: x ObjectiveFunctionInfo_PrintTotalStats_def Let_def split_beta)
qed

text \<open>
  C10. PrintTotalStats of the trainer fails exactly when PrintMaxChangeStats fails, and
  otherwise returns whether some entry of the accuracy statistics has a lifetime weight that
  is not zero: the value accumulated over the objective statistics is overwritten with false
  before the accuracy entries are traversed. In particular, with an empty accuracy map it
  returns false, whatever the objective statistics hold.
\<close>

theorem PrintTotalStats_accuracy_only:
  "map_sum id fst (PrintTotalStats ext s) =
     map_sum id (\<lambda>printed. \<exists>x \<in> set (accuracy_info s). tot_weight (snd x) \<noteq> 0)
       (PrintMaxChangeStats ext s) \<and>
   (accuracy_info s = [] \<longrightarrow>
      map_sum id fst (PrintTotalStats ext s) =
        map_sum id (\<lambda>printed. False) (PrintMaxChangeStats ext s))"
proof -
  have "fst (PrintTotalStats_loop False (accuracy_info s)) =
          (\<exists>x \<in> set (accuracy_info s). tot_weight (snd x) \<noteq> 0)"
    by (simp add: PrintTotalStats_loop_ans)
  then have "map_sum id fst (PrintTotalStats ext s) =
     map_sum id (\<lambda>printed. \<exists>x \<in> set (accuracy_info s). tot_weight (snd x) \<noteq> 0)
       (PrintMaxChangeStats ext s)"
    by (simp add: PrintTotalStats_def Let_def split_beta split: sum.splits)
  then show ?thesis by simp
qed

theorem PrintTotalStats_accuracy_only_witness:
  "tot_weight (info_example 2 3) \<noteq> 0 \<and>
   accuracy_info ((trainer_example (conf_example (1 / 2) 2 0) 5)
                    \<lparr> objf_info := [(''output'', info_example 2 3)] \<rparr>) = [] \<and>
   map_sum id fst
     (PrintTotalStats ext_example
        ((trainer_example (conf_example (1 / 2) 2 0) 5)
           \<lparr> objf_info := [(''output'', info_example 2 3)] \<rparr>)) = Inr False \<and>
   map_sum id fst
     (PrintTotalStats ext_example
        ((trainer_example (conf_example (1 / 2) 2 0) 5)
           \<lparr> objf_info := [(''output'', info_example 2 0)],
             accuracy_info := [(''output'', info_example 2 0),
                               (''output2'', info_example 2 3)] \<rparr>)) = Inr True"
  using PrintTotalStats_accuracy_only [of ext_example
      "(trainer_example (conf_example (1 / 2) 2 0) 5)
         \<lparr> objf_info := [(''output'', info_example 2 3)] \<rparr>"]
    PrintTotalStats_accuracy_only [of ext_example
      "(trainer_example (conf_example (1 / 2) 2 0) 5)
         \<lparr> objf_info := [(''output'', info_example 2 0)],
           accuracy_info := [(''output'', info_example 2 0),
                             (''output2'', info_example 2 3)] \<rparr>"]
  by (simp add: trainer_example_def info_example_def ext_example_def PrintMaxChangeStats_def
        word_sless_alt)

subsection \<open>The objective function\<close>

lemma sum_list_update_real:
  "i < length v \<Longrightarrow> sum_list (v[i := x]) = sum_list v + (x - v ! i)" for v :: "real list"
  by (induction v arbitrary: i) (auto split: nat.splits)

lemma VecVec_update:
  "i < length v \<Longrightarrow> length a = length v \<Longrightarrow>
     VecVec a (v[i := x]) = VecVec a v + a ! i * (x - v ! i)"
proof (induction v arbitrary: i a)
  case Nil
  then show ?case by simp
next
  case (Cons y v)
  then obtain b a' where a: "a = b # a'" by (cases a) auto
  show ?case
  proof (cases i)
    case 0
    then show ?thesis by (simp add: a VecVec_def algebra_simps)
  next
    case (Suc j)
    with Cons.prems a have "j < length v" "length a' = length v" by simp_all
    from Cons.IH [OF this] show ?thesis
      by (simp add: a Suc VecVec_def)
  qed
qed

lemma foldl_update_length:
  "length (foldl (\<lambda>vec (i, x). vec[i := x]) v ps) = length v"
  by (induction ps arbitrary: v) (auto simp: split_beta)

lemma foldl_update_sums:
  assumes "distinct (map fst ps)"
    and "\<forall>(i, x) \<in> set ps. i < length v \<and> v ! i = 0"
    and "length a = length v"
  shows "sum_list (foldl (\<lambda>vec (i, x). vec[i := x]) v ps) = sum_list v + sum_list (map snd ps) \<and>
         VecVec a (foldl (\<lambda>vec (i, x). vec[i := x]) v ps) =
           VecVec a v + sum_list (map (\<lambda>(i, x). a ! i * x) ps)"
  using assms
proof (induction ps arbitrary: v)
  case Nil
  then show ?case by simp
next
  case (Cons p ps)
  obtain i x where p: "p = (i, x)" by (cases p)
  from Cons.prems p have i: "i < length v" "v ! i = 0" by auto
  have d: "distinct (map fst ps)" using Cons.prems(1) by simp
  have z: "\<forall>(j, y) \<in> set ps. j < length (v[i := x]) \<and> v[i := x] ! j = 0"
  proof (clarify)
    fix j y assume m: "(j, y) \<in> set ps"
    with Cons.prems(1) p have "j \<noteq> i" by force
    moreover from m Cons.prems(2) have "j < length v \<and> v ! j = 0" by auto
    ultimately show "j < length (v[i := x]) \<and> v[i := x] ! j = 0" by simp
  qed
  have l: "length a = length (v[i := x])" using Cons.prems(3) by simp
  from Cons.IH [OF d z l] i Cons.prems(3)
  show ?case
    by (simp add: p sum_list_update_real VecVec_update)
qed

lemma CopyElementsToVec_length: "length (CopyElementsToVec v) = sv_dim v"
  by (simp add: CopyElementsToVec_def foldl_update_length)

lemma VecVec_zero: "VecVec a (replicate n 0) = 0"
  by (induction n arbitrary: a) (case_tac a; simp add: VecVec_def)+

lemma CopyElementsToVec_dot:
  assumes "SparseVector_ok v" and "length a = sv_dim v"
  shows "sum_list (CopyElementsToVec v) = SparseVector_Sum v \<and>
         VecVec a (CopyElementsToVec v) = VecSvec a v"
proof -
  have "\<forall>(i, x) \<in> set (sv_pairs v). i < length (replicate (sv_dim v) (0::real)) \<and>
          replicate (sv_dim v) (0::real) ! i = 0"
    using assms(1) by (auto simp: SparseVector_ok_def list_all_iff)
  from foldl_update_sums [OF _ this, of a] assms
  show ?thesis
    by (simp add: SparseVector_ok_def CopyElementsToVec_def SparseVector_Sum_def
          VecSvec_def VecVec_zero sum_list_replicate)
qed

lemma CopyElementsToVec_sum:
  assumes "SparseVector_ok v"
  shows "sum_list (CopyElementsToVec v) = SparseVector_Sum v"
  using CopyElementsToVec_dot [OF assms, of "replicate (sv_dim v) 0"] by simp

lemma SparseMatrix_Sum_dense:
  assumes "SparseMatrix_ok S"
  shows "Matrix_Sum (SparseMatrix_CopyToMat S) = SparseMatrix_Sum S"
proof -
  have "map sum_list (map CopyElementsToVec S) = map SparseVector_Sum S"
    using assms
    by (auto simp: SparseMatrix_ok_def list_all_iff CopyElementsToVec_sum)
  then show ?thesis
    by (simp only: Matrix_Sum_def SparseMatrix_CopyToMat_def SparseMatrix_Sum_def)
qed

lemma TraceMatSmat_dense:
  assumes "SparseMatrix_ok S" and "Matrix_ok A" and "NumCols A = SparseMatrix_NumCols S"
  shows "TraceMatMat_kTrans A (SparseMatrix_CopyToMat S) = TraceMatSmat_kTrans A S"
proof -
  have "map2 VecVec A (map CopyElementsToVec S) = map2 VecSvec A S"
  proof -
    have "\<And>a v. (a, v) \<in> set (zip A S) \<Longrightarrow> VecVec a (CopyElementsToVec v) = VecSvec a v"
    proof -
      fix a v assume "(a, v) \<in> set (zip A S)"
      then have "a \<in> set A" "v \<in> set S" by (auto dest: set_zip_leftD set_zip_rightD)
      with assms have "SparseVector_ok v" "length a = sv_dim v"
        by (auto simp: SparseMatrix_ok_def Matrix_ok_def list_all_iff)
      then show "VecVec a (CopyElementsToVec v) = VecSvec a v"
        by (simp add: CopyElementsToVec_dot)
    qed
    then show ?thesis by (auto simp: zip_map2)
  qed
  then show ?thesis
    by (simp only: TraceMatMat_kTrans_def TraceMatSmat_kTrans_def SparseMatrix_CopyToMat_def)
qed

lemma GetMatrix_NumCols: "NumCols (GetMatrix G) = GeneralMatrix_NumCols G"
proof (cases G)
  case (kSparseMatrix S)
  then show ?thesis
    by (cases S) (simp_all add: NumCols_def SparseMatrix_NumCols_def SparseMatrix_CopyToMat_def
          CopyElementsToVec_length)
qed simp_all

lemma GetMatrix_NumRows: "NumRows (GetMatrix G) = GeneralMatrix_NumRows G"
  by (cases G) (simp_all add: NumRows_def SparseMatrix_CopyToMat_def)

text \<open>
  C4. For a linear objective and a supervision in any of the three encodings that satisfies
  the invariant of its class, with an output of the network whose rows have one length:
  ComputeObjectiveFunction fails on a mismatch of the number of columns and otherwise returns
  totalWeight = the sum of the entries of the dense view of the supervision and
  totalObjective = the elementwise dot product of the output and that dense view, and the
  derivative it supplies is that dense view. So two supervisions with the same dense view,
  whatever their encodings, give the same result. The arithmetic is that of the real
  numbers.
\<close>

theorem Linear_encodings_agree:
  assumes "GeneralMatrix_ok supervision"
    and "Matrix_ok (GetOutput ext computer output_name)"
  shows "ComputeObjectiveFunction ext supervision kLinear output_name supply_deriv computer =
           (if NumCols (GetOutput ext computer output_name) \<noteq> NumCols (GetMatrix supervision)
            then Inl (KaldiError ''Nnet versus example output dimension (num-classes) mismatch'')
            else Inr (if supply_deriv
                      then AcceptInput ext output_name (GetMatrix supervision) computer
                      else computer,
                      Matrix_Sum (GetMatrix supervision),
                      TraceMatMat_kTrans (GetOutput ext computer output_name)
                        (GetMatrix supervision)))
         \<and> (GeneralMatrix_ok other_encoding \<and> GetMatrix other_encoding = GetMatrix supervision \<longrightarrow>
              ComputeObjectiveFunction ext other_encoding kLinear output_name supply_deriv computer =
              ComputeObjectiveFunction ext supervision kLinear output_name supply_deriv computer)"
proof -
  have main: "ComputeObjectiveFunction ext G kLinear output_name supply_deriv computer =
           (if NumCols (GetOutput ext computer output_name) \<noteq> NumCols (GetMatrix G)
            then Inl (KaldiError ''Nnet versus example output dimension (num-classes) mismatch'')
            else Inr (if supply_deriv
                      then AcceptInput ext output_name (GetMatrix G) computer
                      else computer,
                      Matrix_Sum (GetMatrix G),
                      TraceMatMat_kTrans (GetOutput ext computer output_name) (GetMatrix G)))"
    if ok: "GeneralMatrix_ok G" for G
  proof (cases G)
    case (kFullMatrix M)
    then show ?thesis by (simp add: ComputeObjectiveFunction_def)
  next
    case (kCompressedMatrix C)
    then show ?thesis by (simp add: ComputeObjectiveFunction_def Let_def)
  next
    case (kSparseMatrix S)
    with ok have S: "SparseMatrix_ok S" by simp
    have c: "NumCols (SparseMatrix_CopyToMat S) = SparseMatrix_NumCols S"
      using GetMatrix_NumCols [of "kSparseMatrix S"] by simp
    show ?thesis
      using SparseMatrix_Sum_dense [OF S] TraceMatSmat_dense [OF S assms(2)]
      by (simp add: kSparseMatrix ComputeObjectiveFunction_def c)
  qed
  from main [OF assms(1)] main [of other_encoding] show ?thesis by simp
qed

theorem Linear_encodings_agree_witness:
  "GeneralMatrix_ok (kSparseMatrix [\<lparr> sv_dim = 4, sv_pairs = [(2, 1)] \<rparr>]) \<and>
   Matrix_ok (GetOutput (ext_example \<lparr> GetOutput := \<lambda>computer output_name. [ [- 1, - 2, - 3, - 4] ] \<rparr>)
                () ''output'') \<and>
   GeneralMatrix_ok (kFullMatrix [ [0, 0, 1, 0] ]) \<and>
   GetMatrix (kFullMatrix [ [0, 0, 1, 0] ]) =
     GetMatrix (kSparseMatrix [\<lparr> sv_dim = 4, sv_pairs = [(2, 1)] \<rparr>]) \<and>
   GeneralMatrix_ok (kCompressedMatrix (Compressed [ [0, 0, 1, 0] ])) \<and>
   GetMatrix (kCompressedMatrix (Compressed [ [0, 0, 1, 0] ])) =
     GetMatrix (kSparseMatrix [\<lparr> sv_dim = 4, sv_pairs = [(2, 1)] \<rparr>]) \<and>
   ComputeObjectiveFunction
     (ext_example \<lparr> GetOutput := \<lambda>computer output_name. [ [- 1, - 2, - 3, - 4] ] \<rparr>)
     (kSparseMatrix [\<lparr> sv_dim = 4, sv_pairs = [(2, 1)] \<rparr>]) kLinear ''output'' True () =
     Inr ((), 1, - 3) \<and>
   ComputeObjectiveFunction
     (ext_example \<lparr> GetOutput := \<lambda>computer output_name. [ [- 1, - 2, - 3, - 4] ] \<rparr>)
     (kFullMatrix [ [0, 0, 1, 0] ]) kLinear ''output'' True () =
     Inr ((), 1, - 3) \<and>
   ComputeObjectiveFunction
     (ext_example \<lparr> GetOutput := \<lambda>computer output_name. [ [- 1, - 2, - 3, - 4] ] \<rparr>)
     (kCompressedMatrix (Compressed [ [0, 0, 1, 0] ])) kLinear ''output'' True () =
     Inr ((), 1, - 3)"
proof -
  let ?ext = "ext_example \<lparr> GetOutput := \<lambda>computer output_name. [ [- 1, - 2, - 3, - 4] ] \<rparr>"
  let ?sparse = "kSparseMatrix [\<lparr> sv_dim = 4, sv_pairs = [(2, 1)] \<rparr>]"
  have ok: "GeneralMatrix_ok ?sparse"
    by (simp add: SparseMatrix_ok_def SparseVector_ok_def SparseMatrix_NumCols_def)
  have out: "Matrix_ok (GetOutput ?ext () ''output'')"
    by (simp add: ext_example_def Matrix_ok_def NumCols_def)
  have dense: "GetMatrix ?sparse = [ [0, 0, 1, 0] ]"
    by (simp add: SparseMatrix_CopyToMat_def CopyElementsToVec_def numeral_eq_Suc)
  show ?thesis
    using Linear_encodings_agree [OF ok out,
        where other_encoding = "kFullMatrix [ [0, 0, 1, 0] ]" and supply_deriv = True]
      Linear_encodings_agree [OF ok out,
        where other_encoding = "kCompressedMatrix (Compressed [ [0, 0, 1, 0] ])"
          and supply_deriv = True]
      ok out dense
    by (simp add: ext_example_def Matrix_ok_def NumCols_def Matrix_Sum_def
          TraceMatMat_kTrans_def VecVec_def)
qed

lemma AddVec_minus: "length a = length m \<Longrightarrow> AddVec (- 1) a m = map2 (-) m a"
  by (induction a m rule: list_induct2) simp_all

lemma AddVec_length: "length (AddVec alpha a m) = length m"
  by (induction alpha a m rule: AddVec.induct) simp_all

lemma AddMat_length: "length (AddMat alpha A M) = length M"
  by (induction alpha A M rule: AddMat.induct) simp_all

lemma AddMat_minus:
  "map length A = map length M \<Longrightarrow> AddMat (- 1) A M = map2 (map2 (-)) M A"
proof (induction A arbitrary: M)
  case Nil
  then show ?case by simp
next
  case (Cons a A)
  then obtain m M' where M: "M = m # M'" by (cases M) auto
  with Cons show ?case by (simp add: AddVec_minus)
qed

lemma VecVec_self: "VecVec d d = sum_list (map (\<lambda>x. x\<^sup>2) d)"
  by (induction d) (simp_all add: VecVec_def power2_eq_square)

lemma TraceMatMat_self: "TraceMatMat_kTrans D D = Matrix_Sum (map (map (\<lambda>x. x\<^sup>2)) D)"
  by (induction D) (simp_all add: TraceMatMat_kTrans_def Matrix_Sum_def VecVec_self)

lemma map_map_sq_diff:
  "map (map (\<lambda>x. x\<^sup>2)) (map2 (map2 (-)) S O') =
   map2 (map2 (\<lambda>x y. (x - y)\<^sup>2)) S (O' :: real list list)"
  by (simp add: case_prod_beta o_def)

lemma AddVec_self: "AddVec (- 1) m m = replicate (length m) 0"
  by (induction m) simp_all

lemma sum_list_zeros: "sum_list (replicate n (0::real)) = 0"
  by (induction n) simp_all

lemma Sum_sq_self: "Matrix_Sum (map (map (\<lambda>x. x\<^sup>2)) (AddMat (- 1) M M)) = 0"
  by (induction M) (simp_all add: Matrix_Sum_def AddVec_self sum_list_zeros)

text \<open>
  C5. For a quadratic objective and an output of the network with the shape of the
  supervision, ComputeObjectiveFunction returns totalObjective = -0.5 times the sum of the
  squares of the elementwise differences (supervision - output) and totalWeight = the number
  of rows of the supervision, and the derivative it supplies is the matrix of these
  differences. In particular, when the output equals the dense view of the supervision,
  totalObjective is 0 and totalWeight is the number of rows, for any size. The arithmetic is
  that of the real numbers.
\<close>

theorem Quadratic_objective:
  "(map length (GetOutput ext computer output_name) = map length (GetMatrix supervision) \<longrightarrow>
      ComputeObjectiveFunction ext supervision kQuadratic output_name supply_deriv computer =
        Inr (if supply_deriv
             then AcceptInput ext output_name
                    (map2 (map2 (-)) (GetMatrix supervision) (GetOutput ext computer output_name))
                    computer
             else computer,
             real (GeneralMatrix_NumRows supervision),
             - 0.5 * Matrix_Sum (map2 (map2 (\<lambda>x y. (x - y)\<^sup>2)) (GetMatrix supervision)
                            (GetOutput ext computer output_name)))) \<and>
   (GetOutput ext computer output_name = GetMatrix supervision \<longrightarrow>
      (\<exists>computer1.
         ComputeObjectiveFunction ext supervision kQuadratic output_name supply_deriv computer =
           Inr (computer1, real (GeneralMatrix_NumRows supervision), 0)))"
proof (intro conjI impI)
  assume sh: "map length (GetOutput ext computer output_name) = map length (GetMatrix supervision)"
  let ?O = "GetOutput ext computer output_name" and ?S = "GetMatrix supervision"
  have c: "NumCols ?O = GeneralMatrix_NumCols supervision"
  proof -
    have "NumCols ?O = NumCols ?S"
      using sh by (cases ?O; cases ?S) (simp_all add: NumCols_def)
    then show ?thesis by (simp add: GetMatrix_NumCols)
  qed
  have d: "AddMat (- 1) ?O ?S = map2 (map2 (-)) ?S ?O" using sh by (rule AddMat_minus)
  have r: "NumRows (map2 (map2 (-)) ?S ?O) = GeneralMatrix_NumRows supervision"
    using d AddMat_length [of "- 1" ?O ?S] GetMatrix_NumRows [of supervision]
    by (simp add: NumRows_def)
  show "ComputeObjectiveFunction ext supervision kQuadratic output_name supply_deriv computer =
        Inr (if supply_deriv
             then AcceptInput ext output_name (map2 (map2 (-)) ?S ?O) computer
             else computer,
             real (GeneralMatrix_NumRows supervision),
             - 0.5 * Matrix_Sum (map2 (map2 (\<lambda>x y. (x - y)\<^sup>2)) ?S ?O))"
    unfolding ComputeObjectiveFunction_def Let_def d TraceMatMat_self map_map_sq_diff
    using c r by simp
next
  assume e: "GetOutput ext computer output_name = GetMatrix supervision"
  have r: "NumRows (AddMat (- 1) (GetMatrix supervision) (GetMatrix supervision)) =
           GeneralMatrix_NumRows supervision"
    using AddMat_length [of "- 1" "GetMatrix supervision" "GetMatrix supervision"]
      GetMatrix_NumRows [of supervision]
    by (simp add: NumRows_def)
  show "\<exists>computer1.
         ComputeObjectiveFunction ext supervision kQuadratic output_name supply_deriv computer =
           Inr (computer1, real (GeneralMatrix_NumRows supervision), 0)"
    using r by (simp add: ComputeObjectiveFunction_def Let_def e GetMatrix_NumCols TraceMatMat_self Sum_sq_self)
qed

theorem Quadratic_objective_witness:
  "map length (GetOutput ext_example () ''output'') = map length (GetMatrix (kFullMatrix [ [0, 1] ])) \<and>
   ComputeObjectiveFunction ext_example (kFullMatrix [ [0, 1] ]) kQuadratic ''output'' True () =
     Inr ((), 1, - 5) \<and>
   GetOutput ext_example () ''output'' = GetMatrix (kFullMatrix [ [- 1, - 2] ]) \<and>
   ComputeObjectiveFunction ext_example (kFullMatrix [ [- 1, - 2] ]) kQuadratic ''output'' True () =
     Inr ((), 1, 0)"
  using Quadratic_objective [of ext_example "()" "''output''" "kFullMatrix [ [0, 1] ]" True]
    Quadratic_objective [of ext_example "()" "''output''" "kFullMatrix [ [- 1, - 2] ]" True]
  by (simp add: ext_example_def NumRows_def Matrix_Sum_def)

text \<open>
  The two \<^verbatim>\<open>KALDI_ERR\<close> of ComputeObjectiveFunction (lines 369-372 and 431-434): a supervision
  whose number of columns is not that of the output, and an objective type that is neither
  kLinear nor kQuadratic. The failures of the executor (a name that is not an output) and of
  the matrix library (operands whose numbers of rows differ) are not part of the model, so
  nothing is proved here about the calls that return.
\<close>

lemma ComputeObjectiveFunction_fails:
  assumes "NumCols (GetOutput ext computer output_name) \<noteq> GeneralMatrix_NumCols supervision \<or>
           (objective_type \<noteq> kLinear \<and> objective_type \<noteq> kQuadratic)"
  shows "isl (ComputeObjectiveFunction ext supervision objective_type output_name supply_deriv
                computer)"
  using assms
  by (cases objective_type; cases supervision) (simp_all add: ComputeObjectiveFunction_def Let_def)

subsection \<open>Rounding\<close>

lemma round_half_even_of_int: "round_half_even (of_int z) = z"
  by (simp add: round_half_even_def)

lemma binary_exponent_bounds:
  assumes "x \<noteq> 0"
  shows "2 powi binary_exponent x \<le> \<bar>x\<bar> \<and> \<bar>x\<bar> < 2 powi (binary_exponent x + 1)"
proof (cases "1 \<le> \<bar>x\<bar>")
  case True
  let ?n = "\<lfloor>\<bar>x\<bar>\<rfloor>"
  have n: "0 < ?n" using True by linarith
  from bitlen_bounds [OF n] have b: "2 ^ nat (bitlen ?n - 1) \<le> ?n" "?n < 2 ^ nat (bitlen ?n)"
    by auto
  have ge: "1 \<le> bitlen ?n" using n by (simp add: bitlen_alt_def)
  have e: "binary_exponent x = bitlen ?n - 1" using True by (simp add: binary_exponent_def)
  have "(2::real) powi (bitlen ?n - 1) = of_int (2 ^ nat (bitlen ?n - 1))"
    using ge by (simp add: power_int_def)
  also have "\<dots> \<le> of_int ?n" using b(1) by (simp only: of_int_le_iff)
  also have "\<dots> \<le> \<bar>x\<bar>" by simp
  finally have l: "2 powi binary_exponent x \<le> \<bar>x\<bar>" by (simp add: e)
  have "?n + 1 \<le> 2 ^ nat (bitlen ?n)" using b(2) by simp
  then have "real_of_int (?n + 1) \<le> real_of_int (2 ^ nat (bitlen ?n))"
    by (simp only: of_int_le_iff)
  moreover have "\<bar>x\<bar> < real_of_int (?n + 1)" by linarith
  moreover have "real_of_int (2 ^ nat (bitlen ?n)) = 2 powi (binary_exponent x + 1)"
    using ge by (simp add: e power_int_def)
  ultimately have "\<bar>x\<bar> < 2 powi (binary_exponent x + 1)" by linarith
  with l show ?thesis by simp
next
  case False
  let ?y = "1 / \<bar>x\<bar>" and ?n = "\<lfloor>1 / \<bar>x\<bar>\<rfloor>"
  have x: "0 < \<bar>x\<bar>" "\<bar>x\<bar> < 1" using assms False by simp_all
  then have y: "1 < ?y" by simp
  have n: "0 < ?n" using y by linarith
  from bitlen_bounds [OF n] have b: "2 ^ nat (bitlen ?n - 1) \<le> ?n" "?n < 2 ^ nat (bitlen ?n)"
    by auto
  have ge: "1 \<le> bitlen ?n" using n by (simp add: bitlen_alt_def)
  define k where "k = bitlen ?n - 1"
  have k: "0 \<le> k" "nat (bitlen ?n) = Suc (nat k)" "nat (bitlen ?n - 1) = nat k"
    using ge by (simp_all add: k_def)
  have "real_of_int (2 ^ nat k) \<le> real_of_int ?n" using b(1) k(3) by (simp only: of_int_le_iff)
  also have "\<dots> \<le> ?y" by simp
  finally have lo: "2 ^ nat k \<le> ?y" by simp
  have "?n + 1 \<le> 2 ^ Suc (nat k)" using b(2) k(2) by simp
  then have h2: "real_of_int (?n + 1) \<le> real_of_int (2 ^ Suc (nat k))"
    by (simp only: of_int_le_iff)
  have h1: "?y < real_of_int (?n + 1)" by linarith
  from h1 h2 have "?y < real_of_int (2 ^ Suc (nat k))" by (rule less_le_trans)
  then have hi: "?y < 2 ^ Suc (nat k)" by simp
  have p: "(2::real) powi k = 2 ^ nat k" using k(1) by (simp add: power_int_def)
  from lo x have up: "\<bar>x\<bar> * 2 ^ nat k \<le> 1" by (simp add: field_simps)
  from hi x have dn: "1 < \<bar>x\<bar> * 2 ^ Suc (nat k)" by (simp add: field_simps)
  show ?thesis
  proof (cases "\<bar>x\<bar> * 2 powi k = 1")
    case True
    then have e: "binary_exponent x = - k"
      using False by (simp add: binary_exponent_def k_def Let_def)
    from True have xe: "\<bar>x\<bar> = 2 powi (- k)"
      by (simp add: power_int_minus field_simps p)
    have "(2::real) powi (- k) < 2 powi (- k + 1)"
      by (rule power_int_strict_increasing) simp_all
    then show ?thesis by (simp add: e xe)
  next
    case ne: False
    then have e: "binary_exponent x = - k - 1"
      using False by (simp add: binary_exponent_def k_def Let_def)
    have m: "(2::real) powi (- k - 1) = 1 / 2 ^ Suc (nat k)"
      using k(1) by (simp add: power_int_def nat_add_distrib field_simps)
    have m2: "(2::real) powi (- k) = 1 / 2 ^ nat k"
      using k(1) by (simp add: power_int_def field_simps)
    from dn have l: "2 powi (- k - 1) \<le> \<bar>x\<bar>" by (simp add: m field_simps)
    from up ne p have "\<bar>x\<bar> * 2 ^ nat k < 1" by simp
    then have "\<bar>x\<bar> < 2 powi (- k)" by (simp add: m2 field_simps)
    with l show ?thesis by (simp add: e)
  qed
qed

text \<open>A number with at most \<open>p\<close> significant bits is not changed by the rounding.\<close>

lemma round_to_precision_exact:
  assumes "x = of_int m * 2 powi e" and "\<bar>m\<bar> < 2 ^ p"
  shows "round_to_precision p x = x"
proof (cases "x = 0")
  case True
  then show ?thesis by (simp add: round_to_precision_def)
next
  case False
  let ?E = "binary_exponent x"
  from binary_exponent_bounds [OF False] have lo: "2 powi ?E \<le> \<bar>x\<bar>" by simp
  have "\<bar>x\<bar> = of_int \<bar>m\<bar> * 2 powi e" by (simp add: assms(1) abs_mult)
  also have "\<dots> < 2 ^ p * 2 powi e"
  proof -
    have "real_of_int \<bar>m\<bar> < real_of_int (2 ^ p)" using assms(2) by (simp only: of_int_less_iff)
    then show ?thesis by simp
  qed
  also have "\<dots> = 2 powi (int p + e)" by (simp add: power_int_add)
  finally have lt: "(2::real) powi ?E < 2 powi (int p + e)" using lo by simp
  have "?E < int p + e"
  proof (rule ccontr)
    assume "\<not> ?E < int p + e"
    then have "int p + e \<le> ?E" by simp
    then have "(2::real) powi (int p + e) \<le> 2 powi ?E"
      by (rule power_int_increasing) simp
    with lt show False by simp
  qed
  then obtain d where d: "e - (?E - int p + 1) = int d"
    using nonneg_int_cases [of "e - (?E - int p + 1)"] by auto
  have "x / 2 powi (?E - int p + 1) = of_int m * 2 powi (e - (?E - int p + 1))"
    by (simp add: assms(1) power_int_diff)
  also have "\<dots> = of_int (m * 2 ^ d)" by (simp add: d)
  finally have q: "x / 2 powi (?E - int p + 1) = of_int (m * 2 ^ d)" .
  have "round_to_precision p x = of_int (m * 2 ^ d) * 2 powi (?E - int p + 1)"
    using False
    by (simp add: round_to_precision_def Let_def q round_half_even_of_int
          del: of_int_mult of_int_power)
  also have "\<dots> = x" using q by (simp add: field_simps)
  finally show ?thesis .
qed

lemma BaseFloat_of_double_exact:
  assumes "x = of_int m * 2 powi k" and "\<bar>m\<bar> < 2 ^ 24"
  shows "BaseFloat_of_double (double_round x) = x"
proof -
  have "\<bar>m\<bar> < 2 ^ 53" using assms(2) by simp
  with assms(1) have "double_round x = x"
    unfolding double_round_def by (rule round_to_precision_exact)
  moreover from assms have "BaseFloat_of_double x = x"
    unfolding BaseFloat_of_double_def by (rule round_to_precision_exact)
  ultimately show ?thesis by simp
qed

text \<open>The rounding moves a number by at most half a unit in the last place.\<close>

lemma round_half_even_error: "\<bar>of_int (round_half_even y) - y\<bar> \<le> 1 / 2"
proof -
  have "of_int \<lfloor>y\<rfloor> \<le> y" "y < of_int \<lfloor>y\<rfloor> + 1" by linarith+
  then show ?thesis
    by (auto simp: round_half_even_def Let_def abs_if) linarith+
qed

lemma round_to_precision_error:
  "\<bar>round_to_precision p x - x\<bar> \<le> \<bar>x\<bar> / 2 ^ p"
proof (cases "x = 0")
  case True
  then show ?thesis by (simp add: round_to_precision_def)
next
  case False
  let ?u = "(2::real) powi (binary_exponent x - int p + 1)"
  have u: "0 < ?u" by simp
  have "round_to_precision p x - x = (of_int (round_half_even (x / ?u)) - x / ?u) * ?u"
    using False u by (simp add: round_to_precision_def Let_def field_simps)
  then have "\<bar>round_to_precision p x - x\<bar> = \<bar>of_int (round_half_even (x / ?u)) - x / ?u\<bar> * ?u"
    using u by (simp add: abs_mult)
  also have "\<dots> \<le> 1 / 2 * ?u"
    using round_half_even_error [of "x / ?u"] u by (intro mult_right_mono) simp_all
  also have "\<dots> = 2 powi binary_exponent x / 2 ^ p"
    by (simp add: power_int_add power_int_diff)
  also have "\<dots> \<le> \<bar>x\<bar> / 2 ^ p"
    using binary_exponent_bounds [OF False] by (simp add: divide_right_mono)
  finally show ?thesis .
qed

lemma BaseFloat_of_double_error:
  "\<bar>BaseFloat_of_double (double_round x) - x\<bar> \<le> \<bar>x\<bar> / 2 ^ 23"
proof -
  let ?d = "double_round x" and ?f = "BaseFloat_of_double (double_round x)"
  have d: "\<bar>?d - x\<bar> \<le> \<bar>x\<bar> / 2 ^ 53"
    unfolding double_round_def by (rule round_to_precision_error)
  have f: "\<bar>?f - ?d\<bar> \<le> \<bar>?d\<bar> / 2 ^ 24"
    unfolding BaseFloat_of_double_def by (rule round_to_precision_error)
  have "\<bar>?d\<bar> \<le> \<bar>x\<bar> + \<bar>?d - x\<bar>" by simp
  with d have dx: "\<bar>?d\<bar> \<le> \<bar>x\<bar> + \<bar>x\<bar> / 2 ^ 53" by linarith
  have "\<bar>?d\<bar> / 2 ^ 24 \<le> (\<bar>x\<bar> + \<bar>x\<bar> / 2 ^ 53) / 2 ^ 24"
    using dx by (simp only: divide_right_mono zero_le_numeral zero_le_power)
  with d f have "\<bar>?f - x\<bar> \<le> (\<bar>x\<bar> + \<bar>x\<bar> / 2 ^ 53) / 2 ^ 24 + \<bar>x\<bar> / 2 ^ 53"
    by linarith
  also have "\<dots> \<le> \<bar>x\<bar> / 2 ^ 23"
  proof -
    have "(a + a / 2 ^ 53) / 2 ^ 24 + a / 2 ^ 53 \<le> a / 2 ^ 23" if "0 \<le> a" for a :: real
      using that by (simp add: field_simps)
    then show ?thesis by simp
  qed
  finally show ?thesis .
qed

subsection \<open>The training step\<close>

lemma is_backstitch_boundary_iff:
  assumes "is_backstitch_boundary conf n = Inr boundary"
  shows "boundary \<longleftrightarrow>
           backstitch_training_scale conf > 0 \<and>
           sint (backstitch_training_interval conf) dvd sint n"
  using assms
  by (auto simp: is_backstitch_boundary_def int32_mod_zero_iff split: if_splits sum.splits)

text \<open>
  C2 as stated fails: with a momentum of 0.1 (as a \<^verbatim>\<open>BaseFloat\<close>, 13421773 / 134217728) and
  no backstitch boundary, scale\_adding is 7549747 / 8388608 and not 1 - momentum, which is
  120795955 / 134217728 and has 27 significant bits.
\<close>

theorem update_parameters_table_counterexample:
  "BaseFloat_of_double (13421773 / 134217728) = 13421773 / 134217728 \<and>
   momentum (conf_example (13421773 / 134217728) 2 0) = 13421773 / 134217728 \<and>
   is_backstitch_boundary (conf_example (13421773 / 134217728) 2 0) 3 = Inr False \<and>
   update_parameters (conf_example (13421773 / 134217728) 2 0) 3 False =
     Inr (1, 7549747 / 8388608, 13421773 / 134217728) \<and>
   update_parameters (conf_example (13421773 / 134217728) 2 0) 3 False \<noteq>
     Inr (1, 1 - momentum (conf_example (13421773 / 134217728) 2 0),
          momentum (conf_example (13421773 / 134217728) 2 0))"
  by (simp add: update_parameters_def is_backstitch_boundary_def conf_example_def
        BaseFloat_of_double_def double_sub_def double_round_def round_to_precision_def
        binary_exponent_def round_half_even_def compute_bitlen Let_def)

text \<open>
  C2 (as amended). The update parameters (max\_change\_scale, scale\_adding,
  scale\_delta\_nnet) that a training sub-step computes are (1, fl(1 - momentum), momentum)
  when the minibatch is not a backstitch boundary, (backstitch\_training\_scale,
  -backstitch\_training\_scale, 0) when it is one and the sub-step is the backstitch one, and
  (fl(1 + backstitch\_training\_scale), fl(1 + backstitch\_training\_scale), 0) when it is one
  and the sub-step is the normal one, where fl(x) is x computed in \<^verbatim>\<open>double\<close> and narrowed to
  \<^verbatim>\<open>BaseFloat\<close>. fl(x) is x itself when x has at most 24 significant bits (x is m times a
  power of 2, for an integer m with \<bar>m\<bar> < 16777216), as for a momentum of 0 or 1/2, and
  differs from x by at most \<bar>x\<bar> / 8388608 in every case. These are the values passed
  to the update engine and to ScaleNnet. The minibatch is a backstitch boundary when the
  scale is positive and the interval divides the minibatch counter. (With a positive scale
  and an interval of zero the remainder faults.)
\<close>

theorem update_parameters_table:
  "(is_backstitch_boundary conf n = Inr boundary \<longrightarrow>
      (boundary \<longleftrightarrow>
         backstitch_training_scale conf > 0 \<and>
         sint (backstitch_training_interval conf) dvd sint n) \<and>
      update_parameters conf n is_backstitch_step =
        Inr (if \<not> boundary
               then (1, BaseFloat_of_double (double_sub 1 (momentum conf)), momentum conf)
             else if is_backstitch_step
               then (backstitch_training_scale conf, - backstitch_training_scale conf, 0)
               else (BaseFloat_of_double (double_add 1 (backstitch_training_scale conf)),
                     BaseFloat_of_double (double_add 1 (backstitch_training_scale conf)), 0))) \<and>
   (1 - momentum conf = of_int m * 2 powi k \<and> \<bar>m\<bar> < 2 ^ 24 \<longrightarrow>
      BaseFloat_of_double (double_sub 1 (momentum conf)) = 1 - momentum conf) \<and>
   (1 + backstitch_training_scale conf = of_int m * 2 powi k \<and> \<bar>m\<bar> < 2 ^ 24 \<longrightarrow>
      BaseFloat_of_double (double_add 1 (backstitch_training_scale conf)) =
        1 + backstitch_training_scale conf) \<and>
   \<bar>BaseFloat_of_double (double_sub 1 (momentum conf)) - (1 - momentum conf)\<bar> \<le>
     \<bar>1 - momentum conf\<bar> / 2 ^ 23 \<and>
   \<bar>BaseFloat_of_double (double_add 1 (backstitch_training_scale conf)) -
      (1 + backstitch_training_scale conf)\<bar> \<le>
     \<bar>1 + backstitch_training_scale conf\<bar> / 2 ^ 23 \<and>
   (is_backstitch_boundary conf n = Inl e \<longrightarrow>
      update_parameters conf n is_backstitch_step = Inl e) \<and>
   (apply_update ext is_backstitch_step s = Inr s1 \<longrightarrow>
      (\<exists>is_boundary success.
         is_backstitch_boundary (config s) (num_minibatches_processed s) = Inr is_boundary \<and>
         events s1 = events s @
           [Call_UpdateNnetWithMaxChange (max_param_change (config s))
              (if \<not> is_boundary then 1
               else if is_backstitch_step then backstitch_training_scale (config s)
               else BaseFloat_of_double (double_add 1 (backstitch_training_scale (config s))))
              (if \<not> is_boundary then BaseFloat_of_double (double_sub 1 (momentum (config s)))
               else if is_backstitch_step then - backstitch_training_scale (config s)
               else BaseFloat_of_double (double_add 1 (backstitch_training_scale (config s))))
              success,
            Call_ScaleNnet
              (if success then (if \<not> is_boundary then momentum (config s) else 0) else 0)]))"
proof (intro conjI impI)
  assume b: "is_backstitch_boundary conf n = Inr boundary"
  show "boundary \<longleftrightarrow>
         backstitch_training_scale conf > 0 \<and>
         sint (backstitch_training_interval conf) dvd sint n"
    using b by (rule is_backstitch_boundary_iff)
  show "update_parameters conf n is_backstitch_step =
        Inr (if \<not> boundary
               then (1, BaseFloat_of_double (double_sub 1 (momentum conf)), momentum conf)
             else if is_backstitch_step
               then (backstitch_training_scale conf, - backstitch_training_scale conf, 0)
               else (BaseFloat_of_double (double_add 1 (backstitch_training_scale conf)),
                     BaseFloat_of_double (double_add 1 (backstitch_training_scale conf)), 0))"
    using b by (simp add: update_parameters_def)
next
  assume "1 - momentum conf = of_int m * 2 powi k \<and> \<bar>m\<bar> < 2 ^ 24"
  then show "BaseFloat_of_double (double_sub 1 (momentum conf)) = 1 - momentum conf"
    unfolding double_sub_def using BaseFloat_of_double_exact by blast
next
  assume "1 + backstitch_training_scale conf = of_int m * 2 powi k \<and> \<bar>m\<bar> < 2 ^ 24"
  then show "BaseFloat_of_double (double_add 1 (backstitch_training_scale conf)) =
        1 + backstitch_training_scale conf"
    unfolding double_add_def using BaseFloat_of_double_exact by blast
next
  show "\<bar>BaseFloat_of_double (double_sub 1 (momentum conf)) - (1 - momentum conf)\<bar> \<le>
          \<bar>1 - momentum conf\<bar> / 2 ^ 23"
    unfolding double_sub_def by (rule BaseFloat_of_double_error)
next
  show "\<bar>BaseFloat_of_double (double_add 1 (backstitch_training_scale conf)) -
           (1 + backstitch_training_scale conf)\<bar> \<le>
          \<bar>1 + backstitch_training_scale conf\<bar> / 2 ^ 23"
    unfolding double_add_def by (rule BaseFloat_of_double_error)
next
  assume "is_backstitch_boundary conf n = Inl e"
  then show "update_parameters conf n is_backstitch_step = Inl e"
    by (simp add: update_parameters_def)
next
  assume a: "apply_update ext is_backstitch_step s = Inr s1"
  let ?add = "BaseFloat_of_double (double_add 1 (backstitch_training_scale (config s)))"
  let ?sub = "BaseFloat_of_double (double_sub 1 (momentum (config s)))"
  from a obtain is_boundary where
    b: "is_backstitch_boundary (config s) (num_minibatches_processed s) = Inr is_boundary"
    by (auto simp: apply_update_def update_parameters_def split: sum.splits)
  obtain success net per_component global where
    r: "UpdateNnetWithMaxChange ext (delta_nnet s) (max_param_change (config s))
          (if \<not> is_boundary then 1
           else if is_backstitch_step then backstitch_training_scale (config s)
           else ?add)
          (if \<not> is_boundary then ?sub
           else if is_backstitch_step then - backstitch_training_scale (config s)
           else ?add)
          (nnet s) (num_max_change_per_component_applied s)
          (num_max_change_global_applied s) = (success, net, per_component, global)"
    using prod_cases4 by blast
  have "events s1 = events s @
           [Call_UpdateNnetWithMaxChange (max_param_change (config s))
              (if \<not> is_boundary then 1
               else if is_backstitch_step then backstitch_training_scale (config s)
               else ?add)
              (if \<not> is_boundary then ?sub
               else if is_backstitch_step then - backstitch_training_scale (config s)
               else ?add)
              success,
            Call_ScaleNnet
              (if success then (if \<not> is_boundary then momentum (config s) else 0) else 0)]"
    using a b r by (auto simp: apply_update_def update_parameters_def split: if_splits)
  with b show "\<exists>is_boundary success.
         is_backstitch_boundary (config s) (num_minibatches_processed s) = Inr is_boundary \<and>
         events s1 = events s @
           [Call_UpdateNnetWithMaxChange (max_param_change (config s))
              (if \<not> is_boundary then 1
               else if is_backstitch_step then backstitch_training_scale (config s)
               else ?add)
              (if \<not> is_boundary then ?sub
               else if is_backstitch_step then - backstitch_training_scale (config s)
               else ?add)
              success,
            Call_ScaleNnet
              (if success then (if \<not> is_boundary then momentum (config s) else 0) else 0)]"
    by blast
qed

lemma apply_update_example:
  "\<exists>s1. apply_update ext_example True (trainer_example (conf_example 0 2 (1 / 4)) 6) = Inr s1"
  by (simp add: ext_example_def conf_example_def trainer_example_def apply_update_def
        update_parameters_def is_backstitch_boundary_def int32_mod_def INT32_MIN_def
        signed_modulo_int_def Let_def)

theorem update_parameters_table_witness:
  "is_backstitch_boundary (conf_example (1 / 2) 2 0) 3 = Inr False \<and>
   1 - momentum (conf_example (1 / 2) 2 0) = of_int 1 * 2 powi (- 1) \<and>
   \<bar>1 :: int\<bar> < 2 ^ 24 \<and>
   update_parameters (conf_example (1 / 2) 2 0) 3 False = Inr (1, 1 - 1 / 2, 1 / 2) \<and>
   is_backstitch_boundary (conf_example 0 2 (1 / 4)) 4 = Inr False \<and>
   update_parameters (conf_example 0 2 (1 / 4)) 4 False = Inr (1, 1 - 0, 0) \<and>
   is_backstitch_boundary (conf_example 0 2 (1 / 4)) 6 = Inr True \<and>
   1 + backstitch_training_scale (conf_example 0 2 (1 / 4)) = of_int 5 * 2 powi (- 2) \<and>
   \<bar>5 :: int\<bar> < 2 ^ 24 \<and>
   update_parameters (conf_example 0 2 (1 / 4)) 6 True = Inr (1 / 4, - (1 / 4), 0) \<and>
   update_parameters (conf_example 0 2 (1 / 4)) 6 False = Inr (1 + 1 / 4, 1 + 1 / 4, 0) \<and>
   is_backstitch_boundary ((conf_example 0 2 (1 / 4)) \<lparr> backstitch_training_interval := 0 \<rparr>) 6 =
     Inl ArithmeticFault \<and>
   update_parameters ((conf_example 0 2 (1 / 4)) \<lparr> backstitch_training_interval := 0 \<rparr>) 6 True =
     Inl ArithmeticFault \<and>
   (\<exists>s1 success.
      apply_update ext_example True (trainer_example (conf_example 0 2 (1 / 4)) 6) = Inr s1 \<and>
      events s1 = [Call_UpdateNnetWithMaxChange 2 (1 / 4) (- (1 / 4)) success,
                   Call_ScaleNnet 0])"
proof -
  have b: "is_backstitch_boundary (conf_example (1 / 2) 2 0) 3 = Inr False"
    "is_backstitch_boundary (conf_example 0 2 (1 / 4)) 4 = Inr False"
    "is_backstitch_boundary (conf_example 0 2 (1 / 4)) 6 = Inr True"
    "is_backstitch_boundary ((conf_example 0 2 (1 / 4)) \<lparr> backstitch_training_interval := 0 \<rparr>) 6 =
       Inl ArithmeticFault"
    by (simp_all add: is_backstitch_boundary_def conf_example_def int32_mod_def INT32_MIN_def
          signed_modulo_int_def)
  obtain s1 where a:
    "apply_update ext_example True (trainer_example (conf_example 0 2 (1 / 4)) 6) = Inr s1"
    using apply_update_example by blast
  have c: "config (trainer_example (conf_example 0 2 (1 / 4)) 6) = conf_example 0 2 (1 / 4)"
    "num_minibatches_processed (trainer_example (conf_example 0 2 (1 / 4)) 6) = 6"
    "events (trainer_example (conf_example 0 2 (1 / 4)) 6) = []"
    by (simp_all add: trainer_example_def)
  have p: "max_param_change (conf_example 0 2 (1 / 4)) = 2"
    "backstitch_training_scale (conf_example 0 2 (1 / 4)) = 1 / 4"
    "momentum (conf_example 0 2 (1 / 4)) = 0"
    "momentum (conf_example (1 / 2) 2 0) = 1 / 2"
    by (simp_all add: conf_example_def)
  have x1: "1 - momentum (conf_example (1 / 2) 2 0) = of_int 1 * 2 powi (- 1) \<and>
            \<bar>1 :: int\<bar> < 2 ^ 24"
    by (simp add: p power_int_minus)
  have x2: "1 - momentum (conf_example 0 2 (1 / 4)) = of_int 1 * 2 powi 0 \<and>
            \<bar>1 :: int\<bar> < 2 ^ 24"
    by (simp add: p)
  have x3: "1 + backstitch_training_scale (conf_example 0 2 (1 / 4)) = of_int 5 * 2 powi (- 2) \<and>
            \<bar>5 :: int\<bar> < 2 ^ 24"
    by (simp add: p power_int_minus)
  note t1 = update_parameters_table [of "conf_example (1 / 2) 2 0" 3 False False 1 "- 1"]
  note t2 = update_parameters_table [of "conf_example 0 2 (1 / 4)" 4 False False 1 0]
  note t3 = update_parameters_table [of "conf_example 0 2 (1 / 4)" 6 True True 5 "- 2"]
  note t4 = update_parameters_table [of "conf_example 0 2 (1 / 4)" 6 True False 5 "- 2"]
  from update_parameters_table [of _ _ _ True _ _ _ ext_example
      "trainer_example (conf_example 0 2 (1 / 4)) 6" s1,
      THEN conjunct2, THEN conjunct2, THEN conjunct2, THEN conjunct2, THEN conjunct2,
      THEN conjunct2] a b(3)
  have e: "\<exists>success. events s1 = [Call_UpdateNnetWithMaxChange 2 (1 / 4) (- (1 / 4)) success,
                   Call_ScaleNnet 0]"
    by (auto simp: c p)
  have u1: "update_parameters (conf_example (1 / 2) 2 0) 3 False = Inr (1, 1 - 1 / 2, 1 / 2)"
    using t1 [THEN conjunct1] t1 [THEN conjunct2, THEN conjunct1] b(1) x1
    by (simp add: p)
  have u2: "update_parameters (conf_example 0 2 (1 / 4)) 4 False = Inr (1, 1 - 0, 0)"
    using t2 [THEN conjunct1] t2 [THEN conjunct2, THEN conjunct1] b(2) x2
    by (simp add: p)
  have u3: "update_parameters (conf_example 0 2 (1 / 4)) 6 True = Inr (1 / 4, - (1 / 4), 0)"
    using t3 [THEN conjunct1] b(3)
    by (simp add: p)
  have u4: "update_parameters (conf_example 0 2 (1 / 4)) 6 False =
              Inr (1 + 1 / 4, 1 + 1 / 4, 0)"
    using t4 [THEN conjunct1] t4 [THEN conjunct2, THEN conjunct2, THEN conjunct1] b(3) x3
    by (simp add: p)
  have u5: "update_parameters
              ((conf_example 0 2 (1 / 4)) \<lparr> backstitch_training_interval := 0 \<rparr>) 6 True =
              Inl ArithmeticFault"
    using update_parameters_table [of
        "(conf_example 0 2 (1 / 4)) \<lparr> backstitch_training_interval := 0 \<rparr>" 6 _ True _ _
        ArithmeticFault, THEN conjunct2, THEN conjunct2, THEN conjunct2, THEN conjunct2,
        THEN conjunct2, THEN conjunct1] b(4)
    by simp
  from b x1 x3 u1 u2 u3 u4 u5 a e show ?thesis by blast
qed

lemma UpdateStats_printed:
  "UpdateStats info n K c w objf aux = Inr (info1, printed) \<Longrightarrow>
     filter is_Train_call printed = []"
  by (auto simp: UpdateStats_def PrintStatsForThisPhase_def Let_def
           split: sum.splits if_splits)

lemma ProcessOutputs_body_frame:
  assumes "ProcessOutputs_body ext suffix x s c = Inr (s1, c1)"
  shows "config s1 = config s \<and>
         num_minibatches_processed s1 = num_minibatches_processed s \<and>
         srand_seed s1 = srand_seed s \<and>
         nnet s1 = nnet s \<and> delta_nnet s1 = delta_nnet s \<and>
         (\<exists>evs. events s1 = events s @ evs \<and> filter is_Train_call evs = [])"
  using assms
  by (auto simp: ProcessOutputs_body_def Let_def split_beta
           split: sum.splits if_splits dest!: UpdateStats_printed)

lemma ProcessOutputs_loop_frame:
  "ProcessOutputs_loop ext suffix xs s c = Inr (s1, c1) \<Longrightarrow>
     config s1 = config s \<and>
     num_minibatches_processed s1 = num_minibatches_processed s \<and>
     srand_seed s1 = srand_seed s \<and>
     nnet s1 = nnet s \<and> delta_nnet s1 = delta_nnet s \<and>
     (\<exists>evs. events s1 = events s @ evs \<and> filter is_Train_call evs = [])"
proof (induction xs arbitrary: s c)
  case Nil
  then show ?case by simp
next
  case (Cons x xs)
  from Cons.prems obtain s2 c2 where
    b: "ProcessOutputs_body ext suffix x s c = Inr (s2, c2)"
    and l: "ProcessOutputs_loop ext suffix xs s2 c2 = Inr (s1, c1)"
    by (auto split: sum.splits)
  from ProcessOutputs_body_frame [OF b] Cons.IH [OF l]
  show ?case by auto
qed

lemma run_computer_frame:
  "run_computer ext c s = (c1, s1) \<Longrightarrow>
     config s1 = config s \<and>
     num_minibatches_processed s1 = num_minibatches_processed s \<and>
     srand_seed s1 = srand_seed s \<and> events s1 = events s"
  by (auto simp: run_computer_def Let_def split: prod.splits)

lemma forward_backward_frame:
  assumes "forward_backward ext eg p b s = Inr s1"
  shows "config s1 = config s \<and>
         num_minibatches_processed s1 = num_minibatches_processed s \<and>
         srand_seed s1 = srand_seed s \<and>
         (\<exists>evs. events s1 = events s @ evs \<and> filter is_Train_call evs = [])"
proof -
  obtain c0 s0 where r0: "run_computer ext (AcceptInputs ext (nnet s) (io eg)
      (NewComputer ext p (nnet s) (delta_nnet s))) s = (c0, s0)"
    by (cases "run_computer ext (AcceptInputs ext (nnet s) (io eg)
      (NewComputer ext p (nnet s) (delta_nnet s))) s")
  with assms obtain s2 c2 where
    po: "ProcessOutputs_loop ext (if b then ''_backstitch'' else []) (io eg) s0 c0 = Inr (s2, c2)"
    and r1: "snd (run_computer ext c2 s2) = s1"
    by (auto simp: forward_backward_def ProcessOutputs_def Let_def split_beta split: sum.splits)
  obtain c3 where r1': "run_computer ext c2 s2 = (c3, s1)"
    using r1 by (cases "run_computer ext c2 s2") auto
  from run_computer_frame [OF r0] ProcessOutputs_loop_frame [OF po] run_computer_frame [OF r1']
  show ?thesis by auto
qed

lemma apply_update_eq:
  assumes u: "update_parameters (config s) (num_minibatches_processed s) b =
                Inr (max_change_scale, scale_adding, scale_delta_nnet)"
    and r: "UpdateNnetWithMaxChange ext (delta_nnet s) (max_param_change (config s))
              max_change_scale scale_adding (nnet s)
              (num_max_change_per_component_applied s) (num_max_change_global_applied s) =
            (success, net, per_component, global)"
  shows "apply_update ext b s =
           Inr (s\<lparr> nnet := net,
                   num_max_change_per_component_applied := per_component,
                   num_max_change_global_applied := global,
                   delta_nnet :=
                     ScaleNnet ext (if success then scale_delta_nnet else 0) (delta_nnet s),
                   events := events s @
                     [Call_UpdateNnetWithMaxChange (max_param_change (config s))
                        max_change_scale scale_adding success,
                      Call_ScaleNnet (if success then scale_delta_nnet else 0)] \<rparr>)"
  by (simp add: apply_update_def u r)

lemma apply_update_frame:
  assumes "apply_update ext b s = Inr s1"
  shows "config s1 = config s \<and>
         num_minibatches_processed s1 = num_minibatches_processed s \<and>
         srand_seed s1 = srand_seed s \<and>
         (\<exists>evs. events s1 = events s @ evs \<and> filter is_Train_call evs = [])"
  using assms
  by (auto simp: apply_update_def Let_def split_beta split: sum.splits if_splits)

lemma TrainInternal_frame:
  assumes "TrainInternal ext eg p b s = Inr s1"
  shows "config s1 = config s \<and>
         num_minibatches_processed s1 = num_minibatches_processed s \<and>
         srand_seed s1 = srand_seed s \<and>
         (\<exists>evs. events s1 = events s @ Call_TrainInternal b # evs \<and>
                filter is_Train_call evs = [])"
proof -
  from assms obtain s2 where
    f: "forward_backward ext eg p b (s\<lparr> events := events s @ [Call_TrainInternal b] \<rparr>) = Inr s2"
    and a: "apply_update ext b s2 = Inr s1"
    by (auto simp: TrainInternal_def split: sum.splits)
  from forward_backward_frame [OF f] apply_update_frame [OF a]
  show ?thesis by auto
qed

text \<open>
  C3. In every training sub-step, once the passes have run and the update parameters are
  computed, the update engine is called and TrainInternal returns; the delta network it
  leaves is the delta network after the backward pass scaled by scale\_delta\_nnet when the
  engine reports success, and scaled by 0 when it reports failure. With no backstitch
  boundary and success the scale is the momentum.
\<close>

theorem TrainInternal_scales_delta:
  assumes "forward_backward ext eg computation is_backstitch_step
             (s0\<lparr> events := events s0 @ [Call_TrainInternal is_backstitch_step] \<rparr>) = Inr s"
    and "update_parameters (config s) (num_minibatches_processed s) is_backstitch_step =
           Inr (max_change_scale, scale_adding, scale_delta_after)"
    and "UpdateNnetWithMaxChange ext (delta_nnet s) (max_param_change (config s))
           max_change_scale scale_adding (nnet s)
           (num_max_change_per_component_applied s) (num_max_change_global_applied s) =
         (success, net, per_component, global)"
  shows "\<exists>s1. TrainInternal ext eg computation is_backstitch_step s0 = Inr s1 \<and>
           delta_nnet s1 =
             ScaleNnet ext (if success then scale_delta_after else 0) (delta_nnet s) \<and>
           (success \<and>
            is_backstitch_boundary (config s) (num_minibatches_processed s) = Inr False \<longrightarrow>
              delta_nnet s1 = ScaleNnet ext (momentum (config s)) (delta_nnet s)) \<and>
           (\<not> success \<longrightarrow> delta_nnet s1 = ScaleNnet ext 0 (delta_nnet s)) \<and>
           nnet s1 = net \<and>
           events s1 = events s @
             [Call_UpdateNnetWithMaxChange (max_param_change (config s))
                max_change_scale scale_adding success,
              Call_ScaleNnet (if success then scale_delta_after else 0)]"
proof -
  have m: "is_backstitch_boundary (config s) (num_minibatches_processed s) = Inr False \<Longrightarrow>
           scale_delta_after = momentum (config s)"
    using assms(2) by (simp add: update_parameters_def)
  show ?thesis
    using m by (simp add: TrainInternal_def assms(1) apply_update_eq [OF assms(2,3)])
qed

theorem TrainInternal_scales_delta_witness:
  "(\<exists>s1. TrainInternal ext_example \<lparr> io = [] \<rparr> () False
            (trainer_example (conf_example (1 / 2) 2 0) 0) = Inr s1 \<and>
          delta_nnet s1 = [1] \<and> nnet s1 = [4] \<and>
          events s1 = [Call_TrainInternal False,
                       Call_UpdateNnetWithMaxChange 2 1 (1 / 2) True,
                       Call_ScaleNnet (1 / 2)]) \<and>
   (\<exists>s1. TrainInternal ext_example \<lparr> io = [] \<rparr> () False
            (trainer_example (conf_example (1 / 2) 0 0) 0) = Inr s1 \<and>
          delta_nnet s1 = [0] \<and> nnet s1 = [3] \<and>
          events s1 = [Call_TrainInternal False,
                       Call_UpdateNnetWithMaxChange 0 1 (1 / 2) False,
                       Call_ScaleNnet 0])"
proof -
  let ?s = "\<lambda>change. (trainer_example (conf_example (1 / 2) change 0) 0)
              \<lparr> delta_nnet := [2], rand_state := 3, events := [Call_TrainInternal False] \<rparr>"
  have f: "forward_backward ext_example \<lparr> io = [] \<rparr> () False
             ((trainer_example (conf_example (1 / 2) change 0) 0)
                \<lparr> events := events (trainer_example (conf_example (1 / 2) change 0) 0) @
                     [Call_TrainInternal False] \<rparr>) = Inr (?s change)" for change
    by (simp add: forward_backward_def ProcessOutputs_def run_computer_def ext_example_def
          trainer_example_def)
  have u: "update_parameters (config (?s change)) (num_minibatches_processed (?s change)) False =
             Inr (1, 1 / 2, 1 / 2)" for change
    by (simp add: update_parameters_def is_backstitch_boundary_def trainer_example_def
          conf_example_def BaseFloat_of_double_def double_sub_def double_round_def
          round_to_precision_def binary_exponent_def round_half_even_def compute_bitlen Let_def)
  have r2: "UpdateNnetWithMaxChange ext_example (delta_nnet (?s 2))
              (max_param_change (config (?s 2))) 1 (1 / 2) (nnet (?s 2))
              (num_max_change_per_component_applied (?s 2))
              (num_max_change_global_applied (?s 2)) = (True, [4], [0], 0)"
    by (simp add: ext_example_def trainer_example_def conf_example_def)
  have r0: "UpdateNnetWithMaxChange ext_example (delta_nnet (?s 0))
              (max_param_change (config (?s 0))) 1 (1 / 2) (nnet (?s 0))
              (num_max_change_per_component_applied (?s 0))
              (num_max_change_global_applied (?s 0)) = (False, [3], [0], 0)"
    by (simp add: ext_example_def trainer_example_def conf_example_def)
  show ?thesis
    using TrainInternal_scales_delta [OF f u r2] TrainInternal_scales_delta [OF f u r0]
    by (auto simp: ext_example_def trainer_example_def conf_example_def)
qed

lemma Train_calls:
  assumes "Train ext eg s = Inr s1"
  shows "num_minibatches_processed s1 = num_minibatches_processed s + 1 \<and>
         (\<exists>new. events s1 = events s @ new \<and>
            filter is_Train_call new =
              (if backstitch_training_scale (config s) > 0 \<and>
                  sint (backstitch_training_interval (config s)) dvd
                    sint (num_minibatches_processed s)
               then [Call_FreezeNaturalGradient True,
                     Call_srand (srand_seed s + num_minibatches_processed s),
                     Call_ResetGenerators,
                     Call_TrainInternal True,
                     Call_FreezeNaturalGradient False,
                     Call_srand (srand_seed s + num_minibatches_processed s),
                     Call_ResetGenerators,
                     Call_TrainInternal False]
               else [Call_TrainInternal False]))"
proof -
  let ?p = "Compile ext (nnet s) eg True (store_component_stats (config s))"
  from assms obtain boundary where
    bd: "is_backstitch_boundary (config s) (num_minibatches_processed s) = Inr boundary"
    by (auto simp: Train_def Let_def split: sum.splits)
  note iff = is_backstitch_boundary_iff [OF bd]
  show ?thesis
  proof (cases boundary)
    case False
    with assms bd obtain s2 where
      t: "TrainInternal ext eg ?p False s = Inr s2"
      and e: "s1 = s2\<lparr> num_minibatches_processed := num_minibatches_processed s2 + 1 \<rparr>"
      by (auto simp: Train_def Let_def split: sum.splits)
    from TrainInternal_frame [OF t] e iff False show ?thesis by auto
  next
    case True
    let ?a = "call_ResetGenerators ext (call_srand ext
                (srand_seed s + num_minibatches_processed s)
                (call_FreezeNaturalGradient ext True s))"
    have a: "config ?a = config s" "num_minibatches_processed ?a = num_minibatches_processed s"
      "srand_seed ?a = srand_seed s"
      "events ?a = events s @ [Call_FreezeNaturalGradient True,
         Call_srand (srand_seed s + num_minibatches_processed s), Call_ResetGenerators]"
      by (simp_all add: call_ResetGenerators_def call_srand_def call_FreezeNaturalGradient_def)
    from assms bd True obtain s2 s3 where
      t1: "TrainInternal ext eg ?p True ?a = Inr s2"
      and t2: "TrainInternal ext eg ?p False
                 (call_ResetGenerators ext (call_srand ext
                    (srand_seed s2 + num_minibatches_processed s2)
                    (call_FreezeNaturalGradient ext False s2))) = Inr s3"
      and e: "s1 = s3\<lparr> num_minibatches_processed := num_minibatches_processed s3 + 1 \<rparr>"
      by (auto simp: Train_def Let_def call_ResetGenerators_def call_srand_def
             call_FreezeNaturalGradient_def split: sum.splits if_splits)
    let ?b = "call_ResetGenerators ext (call_srand ext
                    (srand_seed s2 + num_minibatches_processed s2)
                    (call_FreezeNaturalGradient ext False s2))"
    have b: "config ?b = config s2" "num_minibatches_processed ?b = num_minibatches_processed s2"
      "srand_seed ?b = srand_seed s2"
      "events ?b = events s2 @ [Call_FreezeNaturalGradient False,
         Call_srand (srand_seed s2 + num_minibatches_processed s2), Call_ResetGenerators]"
      by (simp_all add: call_ResetGenerators_def call_srand_def call_FreezeNaturalGradient_def)
    from TrainInternal_frame [OF t1] a obtain evs1 where
      f1: "config s2 = config s" "num_minibatches_processed s2 = num_minibatches_processed s"
        "srand_seed s2 = srand_seed s"
        "events s2 = events s @ [Call_FreezeNaturalGradient True,
           Call_srand (srand_seed s + num_minibatches_processed s), Call_ResetGenerators]
           @ Call_TrainInternal True # evs1"
        "filter is_Train_call evs1 = []"
      by auto
    from TrainInternal_frame [OF t2] b f1 obtain evs2 where
      f2: "num_minibatches_processed s3 = num_minibatches_processed s"
        "events s3 = events s2 @ [Call_FreezeNaturalGradient False,
           Call_srand (srand_seed s + num_minibatches_processed s), Call_ResetGenerators]
           @ Call_TrainInternal False # evs2"
        "filter is_Train_call evs2 = []"
      by auto
    from e f1 f2 iff True show ?thesis by auto
  qed
qed

lemma int32_succ:
  assumes "sint (n :: int32) \<noteq> 2 ^ 31 - 1"
  shows "sint (n + 1) = sint n + 1"
proof -
  have "sint n < 2 ^ 31" using sint_lt [of n] by simp
  with assms have "sint n + 1 < 2 ^ 31" by simp
  moreover have "- (2 ^ 31) \<le> sint n + 1" using sint_ge [of n] by simp
  ultimately have "signed_take_bit 31 (sint n + 1) = sint n + 1"
    by (simp add: signed_take_bit_int_eq_self)
  then show ?thesis by (simp add: sint_word_ariths)
qed

lemma Train_normal_eq:
  assumes "is_backstitch_boundary (config s) (num_minibatches_processed s) = Inr False"
  shows "Train ext eg s =
           (case TrainInternal ext eg
                   (Compile ext (nnet s) eg True (store_component_stats (config s))) False s of
              Inl err \<Rightarrow> Inl err
            | Inr r \<Rightarrow>
                Inr (r\<lparr> num_minibatches_processed := num_minibatches_processed s + 1 \<rparr>))"
proof (cases "TrainInternal ext eg
                (Compile ext (nnet s) eg True (store_component_stats (config s))) False s")
  case (Inl err)
  then show ?thesis using assms by (simp add: Train_def)
next
  case (Inr r)
  from TrainInternal_frame [OF Inr]
  have "num_minibatches_processed r = num_minibatches_processed s" by simp
  then show ?thesis using assms Inr by (simp add: Train_def)
qed

lemma Train_backstitch_eq:
  assumes "is_backstitch_boundary (config s) (num_minibatches_processed s) = Inr True"
    and "momentum (config s) = 0"
  shows "Train ext eg s =
           (case TrainInternal ext eg
                   (Compile ext (nnet s) eg True (store_component_stats (config s))) True
                   (s\<lparr> delta_nnet := FreezeNaturalGradient ext True (delta_nnet s),
                       rand_state :=
                         srand ext (srand_seed s + num_minibatches_processed s) (rand_state s),
                       nnet := ResetGenerators ext (nnet s),
                       events := events s @
                         [Call_FreezeNaturalGradient True,
                          Call_srand (srand_seed s + num_minibatches_processed s),
                          Call_ResetGenerators] \<rparr>) of
              Inl err \<Rightarrow> Inl err
            | Inr q \<Rightarrow>
                (case TrainInternal ext eg
                        (Compile ext (nnet s) eg True (store_component_stats (config s))) False
                        (q\<lparr> delta_nnet := FreezeNaturalGradient ext False (delta_nnet q),
                            rand_state :=
                              srand ext (srand_seed s + num_minibatches_processed s)
                                (rand_state q),
                            nnet := ResetGenerators ext (nnet q),
                            events := events q @
                              [Call_FreezeNaturalGradient False,
                               Call_srand (srand_seed s + num_minibatches_processed s),
                               Call_ResetGenerators] \<rparr>) of
                   Inl err \<Rightarrow> Inl err
                 | Inr r \<Rightarrow>
                     Inr (r\<lparr> num_minibatches_processed :=
                               num_minibatches_processed s + 1 \<rparr>)))"
proof -
  let ?p = "Compile ext (nnet s) eg True (store_component_stats (config s))"
  let ?seed = "srand_seed s + num_minibatches_processed s"
  let ?a = "s\<lparr> delta_nnet := FreezeNaturalGradient ext True (delta_nnet s),
               rand_state := srand ext ?seed (rand_state s),
               nnet := ResetGenerators ext (nnet s),
               events := events s @
                 [Call_FreezeNaturalGradient True, Call_srand ?seed, Call_ResetGenerators] \<rparr>"
  have a: "call_ResetGenerators ext (call_srand ext ?seed
             (call_FreezeNaturalGradient ext True s)) = ?a"
    by (simp add: call_ResetGenerators_def call_srand_def call_FreezeNaturalGradient_def)
  have s0: "srand_seed (call_FreezeNaturalGradient ext True s) +
            num_minibatches_processed (call_FreezeNaturalGradient ext True s) = ?seed"
    by (simp add: call_FreezeNaturalGradient_def)
  have T: "Train ext eg s =
             (case (case TrainInternal ext eg ?p True ?a of
                      Inl err \<Rightarrow> Inl err
                    | Inr q \<Rightarrow>
                        TrainInternal ext eg ?p False
                          (call_ResetGenerators ext (call_srand ext
                             (srand_seed (call_FreezeNaturalGradient ext False q) +
                              num_minibatches_processed (call_FreezeNaturalGradient ext False q))
                             (call_FreezeNaturalGradient ext False q)))) of
                Inl err \<Rightarrow> Inl err
              | Inr r \<Rightarrow>
                  Inr (r\<lparr> num_minibatches_processed := num_minibatches_processed r + 1 \<rparr>))"
    unfolding Train_def Let_def assms s0 a by simp
  show ?thesis
  proof (cases "TrainInternal ext eg ?p True ?a")
    case (Inl err)
    then show ?thesis unfolding T by simp
  next
    case q: (Inr q)
    from TrainInternal_frame [OF q]
    have fq: "num_minibatches_processed q = num_minibatches_processed s"
      "srand_seed q = srand_seed s"
      by simp_all
    let ?b = "q\<lparr> delta_nnet := FreezeNaturalGradient ext False (delta_nnet q),
                 rand_state := srand ext ?seed (rand_state q),
                 nnet := ResetGenerators ext (nnet q),
                 events := events q @
                   [Call_FreezeNaturalGradient False, Call_srand ?seed, Call_ResetGenerators] \<rparr>"
    have b: "call_ResetGenerators ext (call_srand ext
               (srand_seed (call_FreezeNaturalGradient ext False q) +
                num_minibatches_processed (call_FreezeNaturalGradient ext False q))
               (call_FreezeNaturalGradient ext False q)) = ?b"
      by (simp add: call_ResetGenerators_def call_srand_def call_FreezeNaturalGradient_def fq)
    show ?thesis
    proof (cases "TrainInternal ext eg ?p False ?b")
      case (Inl err)
      then show ?thesis unfolding T q sum.case b by simp
    next
      case r: (Inr r)
      from TrainInternal_frame [OF r]
      have "num_minibatches_processed r = num_minibatches_processed s" by (simp add: fq)
      then show ?thesis unfolding T q sum.case b using r by simp
    qed
  qed
qed

text \<open>
  C1 as stated fails: at a backstitch boundary of a trainer whose momentum is not zero, which
  the constructor accepts, Train ends the process on the assertion of line 70. No sub-step
  has run and the counter has not grown.
\<close>

theorem Train_substeps_counterexample:
  "NnetTrainer_new ext_example (conf_example (1 / 2) 2 1) [3] 0 =
     Inr (trainer_example (conf_example (1 / 2) 2 1) 0) \<and>
   backstitch_training_scale (config (trainer_example (conf_example (1 / 2) 2 1) 0)) > 0 \<and>
   sint (backstitch_training_interval (config (trainer_example (conf_example (1 / 2) 2 1) 0))) dvd
     sint (num_minibatches_processed (trainer_example (conf_example (1 / 2) 2 1) 0)) \<and>
   Train ext_example eg_example (trainer_example (conf_example (1 / 2) 2 1) 0) =
     Inl (AssertFailed ''config_.momentum == 0.0'')"
  by (simp add: NnetTrainer_new_def ext_example_def conf_example_def eg_example_def
        trainer_example_def Train_def is_backstitch_boundary_def int32_mod_def INT32_MIN_def
        signed_modulo_int_def Let_def)

text \<open>
  C1 (as amended). A minibatch is a backstitch boundary when backstitch\_training\_scale is
  positive and the interval divides the minibatch counter (with a positive scale and an
  interval of zero the remainder faults, and so does Train). For every call of Train:

  \<^item> At a backstitch boundary with a momentum that is not zero, Train ends the process on the
    assertion that the momentum is zero; nothing has run.
  \<^item> At a backstitch boundary with a momentum of zero, Train freezes the natural gradient of
    the delta network, reseeds the random source with srand\_seed + num\_minibatches\_processed,
    resets the generators of the network and runs TrainInternal for the backstitch step on
    that state; on the state this sub-step leaves it unfreezes the natural gradient, reseeds
    the random source with the same seed, resets the generators and runs TrainInternal for
    the normal step; the state Train leaves is the state the second sub-step leaves with the
    counter grown by one. A sub-step that fails ends the call.
  \<^item> Otherwise Train runs TrainInternal for the normal step on the state it was called in,
    with no reseeding, and leaves the state of the sub-step with the counter grown by one.
  \<^item> A sub-step does not change the counter, the seed or the options, so both sub-steps run
    under the old counter and the counter grows only after them.
  \<^item> Hence a call that returns has made exactly the calls listed, in this order, and its
    counter has grown by one (on int32; as an integer too, unless it was the largest int32).
    A call that does not return has ended the process with a fatal error, which is the
    arithmetic fault of the remainder, the assertion on the momentum, or the failure of a
    sub-step.
\<close>

theorem Train_substeps:
  "(is_backstitch_boundary (config s) (num_minibatches_processed s) = Inr boundary \<longrightarrow>
      (boundary \<longleftrightarrow>
         backstitch_training_scale (config s) > 0 \<and>
         sint (backstitch_training_interval (config s)) dvd
           sint (num_minibatches_processed s))) \<and>
   (is_backstitch_boundary (config s) (num_minibatches_processed s) = Inl e \<longrightarrow>
      Train ext eg s = Inl e) \<and>
   (is_backstitch_boundary (config s) (num_minibatches_processed s) = Inr True \<and>
    momentum (config s) \<noteq> 0 \<longrightarrow>
      Train ext eg s = Inl (AssertFailed ''config_.momentum == 0.0'')) \<and>
   (is_backstitch_boundary (config s) (num_minibatches_processed s) = Inr True \<and>
    momentum (config s) = 0 \<longrightarrow>
      Train ext eg s =
        (case TrainInternal ext eg
                (Compile ext (nnet s) eg True (store_component_stats (config s))) True
                (s\<lparr> delta_nnet := FreezeNaturalGradient ext True (delta_nnet s),
                    rand_state :=
                      srand ext (srand_seed s + num_minibatches_processed s) (rand_state s),
                    nnet := ResetGenerators ext (nnet s),
                    events := events s @
                      [Call_FreezeNaturalGradient True,
                       Call_srand (srand_seed s + num_minibatches_processed s),
                       Call_ResetGenerators] \<rparr>) of
           Inl err \<Rightarrow> Inl err
         | Inr q \<Rightarrow>
             (case TrainInternal ext eg
                     (Compile ext (nnet s) eg True (store_component_stats (config s))) False
                     (q\<lparr> delta_nnet := FreezeNaturalGradient ext False (delta_nnet q),
                         rand_state :=
                           srand ext (srand_seed s + num_minibatches_processed s)
                             (rand_state q),
                         nnet := ResetGenerators ext (nnet q),
                         events := events q @
                           [Call_FreezeNaturalGradient False,
                            Call_srand (srand_seed s + num_minibatches_processed s),
                            Call_ResetGenerators] \<rparr>) of
                Inl err \<Rightarrow> Inl err
              | Inr r \<Rightarrow>
                  Inr (r\<lparr> num_minibatches_processed :=
                            num_minibatches_processed s + 1 \<rparr>)))) \<and>
   (is_backstitch_boundary (config s) (num_minibatches_processed s) = Inr False \<longrightarrow>
      Train ext eg s =
        (case TrainInternal ext eg
                (Compile ext (nnet s) eg True (store_component_stats (config s))) False s of
           Inl err \<Rightarrow> Inl err
         | Inr r \<Rightarrow>
             Inr (r\<lparr> num_minibatches_processed := num_minibatches_processed s + 1 \<rparr>))) \<and>
   (TrainInternal ext eg computation is_backstitch_step sub = Inr left \<longrightarrow>
      num_minibatches_processed left = num_minibatches_processed sub \<and>
      srand_seed left = srand_seed sub \<and> config left = config sub) \<and>
   (Train ext eg s = Inr final \<longrightarrow>
      num_minibatches_processed final = num_minibatches_processed s + 1 \<and>
      (sint (num_minibatches_processed s) \<noteq> 2 ^ 31 - 1 \<longrightarrow>
         sint (num_minibatches_processed final) = sint (num_minibatches_processed s) + 1) \<and>
      (\<exists>new. events final = events s @ new \<and>
         filter is_Train_call new =
           (if backstitch_training_scale (config s) > 0 \<and>
               sint (backstitch_training_interval (config s)) dvd
                 sint (num_minibatches_processed s)
            then [Call_FreezeNaturalGradient True,
                  Call_srand (srand_seed s + num_minibatches_processed s),
                  Call_ResetGenerators,
                  Call_TrainInternal True,
                  Call_FreezeNaturalGradient False,
                  Call_srand (srand_seed s + num_minibatches_processed s),
                  Call_ResetGenerators,
                  Call_TrainInternal False]
            else [Call_TrainInternal False]))) \<and>
   (Train ext eg s = Inl e \<longrightarrow>
      is_backstitch_boundary (config s) (num_minibatches_processed s) = Inl e \<or>
      (is_backstitch_boundary (config s) (num_minibatches_processed s) = Inr True \<and>
       momentum (config s) \<noteq> 0 \<and> e = AssertFailed ''config_.momentum == 0.0'') \<or>
      (\<exists>is_backstitch_step sub.
         TrainInternal ext eg
           (Compile ext (nnet s) eg True (store_component_stats (config s)))
           is_backstitch_step sub = Inl e))"
  (is "?boundary \<and> ?fault \<and> ?assertion \<and> ?backstitch \<and> ?normal \<and>
       (?substep \<longrightarrow> ?kept) \<and> (?returns \<longrightarrow> ?calls) \<and> (?fails \<longrightarrow> ?reasons)")
proof -
  have 1: ?boundary using is_backstitch_boundary_iff by blast
  have 2: ?fault by (simp add: Train_def)
  have 3: ?assertion by (simp add: Train_def)
  have 4: ?backstitch using Train_backstitch_eq by blast
  have 5: ?normal using Train_normal_eq by blast
  have 6: "?substep \<longrightarrow> ?kept"
  proof (rule impI)
    assume t: ?substep
    from TrainInternal_frame [OF t] show ?kept by simp
  qed
  have 7: "?returns \<longrightarrow> ?calls"
  proof (rule impI)
    assume r: ?returns
    from Train_calls [OF r] int32_succ [of "num_minibatches_processed s"]
    show ?calls by simp
  qed
  have 8: "?fails \<longrightarrow> ?reasons"
  proof (rule impI)
    assume ?fails
    then show ?reasons
      by (auto simp: Train_def Let_def split: sum.splits if_splits bool.splits)
  qed
  show ?thesis by (intro conjI 1 2 3 4 5 6 7 8)
qed

lemma Train_example_backstitch:
  "\<exists>q r.
     TrainInternal ext_example eg_example () True
       ((trainer_example (conf_example 0 2 1) 3)
          \<lparr> rand_state := 10,
            events := [Call_FreezeNaturalGradient True, Call_srand 10, Call_ResetGenerators] \<rparr>) =
       Inr q \<and>
     TrainInternal ext_example eg_example () False
       (q\<lparr> rand_state := 10,
           events := events q @
             [Call_FreezeNaturalGradient False, Call_srand 10, Call_ResetGenerators] \<rparr>) =
       Inr r \<and>
     nnet q = [1] \<and> rand_state q = 12 \<and> num_minibatches_processed q = 3 \<and>
     nnet r = [5] \<and> rand_state r = 12 \<and> num_minibatches_processed r = 3"
  by (simp add: ext_example_def conf_example_def eg_example_def trainer_example_def
        TrainInternal_def forward_backward_def apply_update_def run_computer_def
        ProcessOutputs_def ProcessOutputs_body_def update_parameters_def
        is_backstitch_boundary_def ComputeObjectiveFunction_def UpdateStats_def
        PrintStatsForThisPhase_def lookup_or_insert_def ObjectiveFunctionInfo_init_def
        int32_div_def int32_mod_def INT32_MIN_def BaseFloat_div_def NumCols_def
        SparseMatrix_NumCols_def SparseMatrix_Sum_def SparseVector_Sum_def
        TraceMatSmat_kTrans_def VecSvec_def SparseMatrix_CopyToMat_def CopyElementsToVec_def
        word_sless_alt word_sle_eq signed_divide_int_def signed_modulo_int_def
        BaseFloat_of_double_def double_add_def double_sub_def double_round_def
        round_to_precision_def binary_exponent_def round_half_even_def compute_bitlen Let_def)

lemma Train_example_normal:
  "\<exists>r. TrainInternal ext_example eg_example () False
          (trainer_example (conf_example (1 / 2) 2 0) 0) = Inr r \<and>
        nnet r = [4] \<and> rand_state r = 3 \<and> num_minibatches_processed r = 0"
  by (simp add: ext_example_def conf_example_def eg_example_def trainer_example_def
        TrainInternal_def forward_backward_def apply_update_def run_computer_def
        ProcessOutputs_def ProcessOutputs_body_def update_parameters_def
        is_backstitch_boundary_def ComputeObjectiveFunction_def UpdateStats_def
        PrintStatsForThisPhase_def lookup_or_insert_def ObjectiveFunctionInfo_init_def
        int32_div_def int32_mod_def INT32_MIN_def BaseFloat_div_def NumCols_def
        SparseMatrix_NumCols_def SparseMatrix_Sum_def SparseVector_Sum_def
        TraceMatSmat_kTrans_def VecSvec_def SparseMatrix_CopyToMat_def CopyElementsToVec_def
        word_sless_alt word_sle_eq signed_divide_int_def signed_modulo_int_def
        BaseFloat_of_double_def double_add_def double_sub_def double_round_def
        round_to_precision_def binary_exponent_def round_half_even_def compute_bitlen Let_def)


theorem Train_substeps_witness:
  "is_backstitch_boundary (config (trainer_example (conf_example 0 2 1) 3))
     (num_minibatches_processed (trainer_example (conf_example 0 2 1) 3)) = Inr True \<and>
   momentum (config (trainer_example (conf_example 0 2 1) 3)) = 0 \<and>
   (\<exists>q r final.
      TrainInternal ext_example eg_example () True
        ((trainer_example (conf_example 0 2 1) 3)
           \<lparr> rand_state := 10,
             events := [Call_FreezeNaturalGradient True, Call_srand 10, Call_ResetGenerators] \<rparr>) =
        Inr q \<and>
      TrainInternal ext_example eg_example () False
        (q\<lparr> rand_state := 10,
            events := events q @
              [Call_FreezeNaturalGradient False, Call_srand 10, Call_ResetGenerators] \<rparr>) =
        Inr r \<and>
      num_minibatches_processed q = 3 \<and> srand_seed q = 7 \<and>
      config q = conf_example 0 2 1 \<and> rand_state q = 12 \<and> nnet q = [1] \<and>
      num_minibatches_processed r = 3 \<and> rand_state r = 12 \<and> nnet r = [5] \<and>
      Train ext_example eg_example (trainer_example (conf_example 0 2 1) 3) = Inr final \<and>
      final = r\<lparr> num_minibatches_processed := 4 \<rparr> \<and>
      filter is_Train_call (events final) =
        [Call_FreezeNaturalGradient True, Call_srand 10, Call_ResetGenerators,
         Call_TrainInternal True,
         Call_FreezeNaturalGradient False, Call_srand 10, Call_ResetGenerators,
         Call_TrainInternal False]) \<and>
   is_backstitch_boundary (config (trainer_example (conf_example (1 / 2) 2 0) 0))
     (num_minibatches_processed (trainer_example (conf_example (1 / 2) 2 0) 0)) = Inr False \<and>
   (\<exists>r final.
      TrainInternal ext_example eg_example () False
        (trainer_example (conf_example (1 / 2) 2 0) 0) = Inr r \<and>
      num_minibatches_processed r = 0 \<and> rand_state r = 3 \<and> nnet r = [4] \<and>
      Train ext_example eg_example (trainer_example (conf_example (1 / 2) 2 0) 0) = Inr final \<and>
      final = r\<lparr> num_minibatches_processed := 1 \<rparr> \<and>
      filter is_Train_call (events final) = [Call_TrainInternal False]) \<and>
   is_backstitch_boundary (config (trainer_example (conf_example (1 / 2) 2 1) 3))
     (num_minibatches_processed (trainer_example (conf_example (1 / 2) 2 1) 3)) = Inr True \<and>
   momentum (config (trainer_example (conf_example (1 / 2) 2 1) 3)) \<noteq> 0 \<and>
   Train ext_example eg_example (trainer_example (conf_example (1 / 2) 2 1) 3) =
     Inl (AssertFailed ''config_.momentum == 0.0'') \<and>
   is_backstitch_boundary
     (config (trainer_example
                ((conf_example 0 2 1) \<lparr> backstitch_training_interval := 0 \<rparr>) 3))
     (num_minibatches_processed (trainer_example
                ((conf_example 0 2 1) \<lparr> backstitch_training_interval := 0 \<rparr>) 3)) =
     Inl ArithmeticFault \<and>
   Train ext_example eg_example
     (trainer_example ((conf_example 0 2 1) \<lparr> backstitch_training_interval := 0 \<rparr>) 3) =
     Inl ArithmeticFault"
proof -
  let ?A = "trainer_example (conf_example 0 2 1) 3"
  let ?B = "trainer_example (conf_example (1 / 2) 2 0) 0"
  let ?C = "trainer_example (conf_example (1 / 2) 2 1) 3"
  let ?D = "trainer_example ((conf_example 0 2 1) \<lparr> backstitch_training_interval := 0 \<rparr>) 3"
  have bA: "is_backstitch_boundary (config ?A) (num_minibatches_processed ?A) = Inr True"
    and bB: "is_backstitch_boundary (config ?B) (num_minibatches_processed ?B) = Inr False"
    and bC: "is_backstitch_boundary (config ?C) (num_minibatches_processed ?C) = Inr True"
    and bD: "is_backstitch_boundary (config ?D) (num_minibatches_processed ?D) =
               Inl ArithmeticFault"
    by (simp_all add: conf_example_def trainer_example_def is_backstitch_boundary_def
          int32_mod_def INT32_MIN_def signed_modulo_int_def)
  have mA: "momentum (config ?A) = 0" and mC: "momentum (config ?C) \<noteq> 0"
    by (simp_all add: conf_example_def trainer_example_def)
  have p: "Compile ext_example net eg_example True store = ()" for net store
    by simp
  have fA: "?A\<lparr> delta_nnet := FreezeNaturalGradient ext_example True (delta_nnet ?A),
               rand_state :=
                 srand ext_example (srand_seed ?A + num_minibatches_processed ?A) (rand_state ?A),
               nnet := ResetGenerators ext_example (nnet ?A),
               events := events ?A @
                 [Call_FreezeNaturalGradient True,
                  Call_srand (srand_seed ?A + num_minibatches_processed ?A),
                  Call_ResetGenerators] \<rparr> =
            ?A\<lparr> rand_state := 10,
                events := [Call_FreezeNaturalGradient True, Call_srand 10,
                           Call_ResetGenerators] \<rparr>"
    by (simp add: ext_example_def trainer_example_def)
  have fq: "q\<lparr> delta_nnet := FreezeNaturalGradient ext_example False (delta_nnet q),
               rand_state :=
                 srand ext_example (srand_seed ?A + num_minibatches_processed ?A) (rand_state q),
               nnet := ResetGenerators ext_example (nnet q),
               events := events q @
                 [Call_FreezeNaturalGradient False,
                  Call_srand (srand_seed ?A + num_minibatches_processed ?A),
                  Call_ResetGenerators] \<rparr> =
            q\<lparr> rand_state := 10,
               events := events q @
                 [Call_FreezeNaturalGradient False, Call_srand 10, Call_ResetGenerators] \<rparr>"
    for q :: "(real list, 32 word) NnetTrainer"
    by (simp add: ext_example_def trainer_example_def)
  have nA: "num_minibatches_processed ?A + 1 = 4" and nB: "num_minibatches_processed ?B + 1 = 1"
    by (simp_all add: trainer_example_def)
  have cA: "backstitch_training_scale (config ?A) > 0 \<and>
            sint (backstitch_training_interval (config ?A)) dvd
              sint (num_minibatches_processed ?A)"
    using Train_substeps [where s = ?A and boundary = True, THEN conjunct1] bA by simp
  have cB: "\<not> (backstitch_training_scale (config ?B) > 0 \<and>
            sint (backstitch_training_interval (config ?B)) dvd
              sint (num_minibatches_processed ?B))"
    using Train_substeps [where s = ?B and boundary = False, THEN conjunct1] bB by simp
  have sA: "srand_seed ?A + num_minibatches_processed ?A = 10" "events ?A = []"
    and sB: "events ?B = []"
    by (simp_all add: trainer_example_def)
  obtain q r where
    q: "TrainInternal ext_example eg_example () True
          (?A\<lparr> rand_state := 10,
               events := [Call_FreezeNaturalGradient True, Call_srand 10,
                          Call_ResetGenerators] \<rparr>) = Inr q"
    and r: "TrainInternal ext_example eg_example () False
          (q\<lparr> rand_state := 10,
              events := events q @
                [Call_FreezeNaturalGradient False, Call_srand 10, Call_ResetGenerators] \<rparr>) =
          Inr r"
    and v: "nnet q = [1]" "rand_state q = 12" "num_minibatches_processed q = 3"
      "nnet r = [5]" "rand_state r = 12" "num_minibatches_processed r = 3"
    using Train_example_backstitch by blast
  have kq: "num_minibatches_processed q = 3 \<and> srand_seed q = 7 \<and>
            config q = conf_example 0 2 1"
    using Train_substeps [where ext = ext_example and eg = eg_example and computation = "()"
        and is_backstitch_step = True and left = q
        and sub = "?A\<lparr> rand_state := 10,
                      events := [Call_FreezeNaturalGradient True, Call_srand 10,
                                 Call_ResetGenerators] \<rparr>",
        THEN conjunct2, THEN conjunct2, THEN conjunct2, THEN conjunct2, THEN conjunct2,
        THEN conjunct1, THEN mp, OF q]
    by (simp add: trainer_example_def)
  have TA: "Train ext_example eg_example ?A = Inr (r\<lparr> num_minibatches_processed := 4 \<rparr>)"
    using Train_substeps [where s = ?A and ext = ext_example and eg = eg_example,
        THEN conjunct2, THEN conjunct2, THEN conjunct2, THEN conjunct1] bA mA
    unfolding p fA fq nA q sum.case r by simp
  note callsA = Train_substeps [where s = ?A and ext = ext_example and eg = eg_example
        and final = "r\<lparr> num_minibatches_processed := 4 \<rparr>",
        THEN conjunct2, THEN conjunct2, THEN conjunct2, THEN conjunct2, THEN conjunct2,
        THEN conjunct2, THEN conjunct1, THEN mp, OF TA, THEN conjunct2, THEN conjunct2]
  from callsA obtain new where
    n1: "events (r\<lparr> num_minibatches_processed := 4 \<rparr>) = events ?A @ new"
    and n2: "filter is_Train_call new =
        [Call_FreezeNaturalGradient True,
         Call_srand (srand_seed ?A + num_minibatches_processed ?A), Call_ResetGenerators,
         Call_TrainInternal True,
         Call_FreezeNaturalGradient False,
         Call_srand (srand_seed ?A + num_minibatches_processed ?A), Call_ResetGenerators,
         Call_TrainInternal False]"
    unfolding if_P [OF cA] by blast
  have eA: "filter is_Train_call (events (r\<lparr> num_minibatches_processed := 4 \<rparr>)) =
        [Call_FreezeNaturalGradient True, Call_srand 10, Call_ResetGenerators,
         Call_TrainInternal True,
         Call_FreezeNaturalGradient False, Call_srand 10, Call_ResetGenerators,
         Call_TrainInternal False]"
    unfolding n1 sA(2) append_Nil n2 sA(1) ..
  obtain r' where
    r': "TrainInternal ext_example eg_example () False ?B = Inr r'"
    and v': "nnet r' = [4]" "rand_state r' = 3" "num_minibatches_processed r' = 0"
    using Train_example_normal by blast
  have TB: "Train ext_example eg_example ?B = Inr (r'\<lparr> num_minibatches_processed := 1 \<rparr>)"
    using Train_substeps [where s = ?B and ext = ext_example and eg = eg_example,
        THEN conjunct2, THEN conjunct2, THEN conjunct2, THEN conjunct2, THEN conjunct1] bB
    unfolding p nB r' sum.case by simp
  note callsB = Train_substeps [where s = ?B and ext = ext_example and eg = eg_example
        and final = "r'\<lparr> num_minibatches_processed := 1 \<rparr>",
        THEN conjunct2, THEN conjunct2, THEN conjunct2, THEN conjunct2, THEN conjunct2,
        THEN conjunct2, THEN conjunct1, THEN mp, OF TB, THEN conjunct2, THEN conjunct2]
  from callsB obtain new' where
    n1': "events (r'\<lparr> num_minibatches_processed := 1 \<rparr>) = events ?B @ new'"
    and n2': "filter is_Train_call new' = [Call_TrainInternal False]"
    unfolding if_not_P [OF cB] by blast
  have eB: "filter is_Train_call (events (r'\<lparr> num_minibatches_processed := 1 \<rparr>)) =
        [Call_TrainInternal False]"
    unfolding n1' sB append_Nil n2' ..
  have TC: "Train ext_example eg_example ?C = Inl (AssertFailed ''config_.momentum == 0.0'')"
    using Train_substeps [where s = ?C and ext = ext_example and eg = eg_example,
        THEN conjunct2, THEN conjunct2, THEN conjunct1] bC mC
    by simp
  have TD: "Train ext_example eg_example ?D = Inl ArithmeticFault"
    using Train_substeps [where s = ?D and ext = ext_example and eg = eg_example
        and e = ArithmeticFault, THEN conjunct2, THEN conjunct1] bD
    by simp
  have XA: "\<exists>q r final.
      TrainInternal ext_example eg_example () True
        (?A\<lparr> rand_state := 10,
            events := [Call_FreezeNaturalGradient True, Call_srand 10, Call_ResetGenerators] \<rparr>) =
        Inr q \<and>
      TrainInternal ext_example eg_example () False
        (q\<lparr> rand_state := 10,
            events := events q @
              [Call_FreezeNaturalGradient False, Call_srand 10, Call_ResetGenerators] \<rparr>) =
        Inr r \<and>
      num_minibatches_processed q = 3 \<and> srand_seed q = 7 \<and>
      config q = conf_example 0 2 1 \<and> rand_state q = 12 \<and> nnet q = [1] \<and>
      num_minibatches_processed r = 3 \<and> rand_state r = 12 \<and> nnet r = [5] \<and>
      Train ext_example eg_example ?A = Inr final \<and>
      final = r\<lparr> num_minibatches_processed := 4 \<rparr> \<and>
      filter is_Train_call (events final) =
        [Call_FreezeNaturalGradient True, Call_srand 10, Call_ResetGenerators,
         Call_TrainInternal True,
         Call_FreezeNaturalGradient False, Call_srand 10, Call_ResetGenerators,
         Call_TrainInternal False]"
    apply (rule exI [of _ q])
    apply (rule exI [of _ r])
    apply (rule exI [of _ "r\<lparr> num_minibatches_processed := 4 \<rparr>"])
    apply (intro conjI q r v TA eA refl kq [THEN conjunct1]
        kq [THEN conjunct2, THEN conjunct1] kq [THEN conjunct2, THEN conjunct2])
    done
  have XB: "\<exists>r final.
      TrainInternal ext_example eg_example () False ?B = Inr r \<and>
      num_minibatches_processed r = 0 \<and> rand_state r = 3 \<and> nnet r = [4] \<and>
      Train ext_example eg_example ?B = Inr final \<and>
      final = r\<lparr> num_minibatches_processed := 1 \<rparr> \<and>
      filter is_Train_call (events final) = [Call_TrainInternal False]"
    apply (rule exI [of _ r'])
    apply (rule exI [of _ "r'\<lparr> num_minibatches_processed := 1 \<rparr>"])
    apply (intro conjI r' v' TB eB refl)
    done
  show ?thesis by (intro conjI bA mA XA bB XB bC mC TC bD TD)
qed

subsection \<open>Backstitch and momentum\<close>

text \<open>
  C7 as stated fails: the constructor accepts options with a momentum of 1/2 and a
  backstitch scale of 1.
\<close>

theorem backstitch_momentum_counterexample:
  "momentum (conf_example (1 / 2) 2 1) > 0 \<and>
   backstitch_training_scale (conf_example (1 / 2) 2 1) > 0 \<and>
   NnetTrainer_new ext_example (conf_example (1 / 2) 2 1) [3] 0 =
     Inr (trainer_example (conf_example (1 / 2) 2 1) 0)"
  by (simp add: NnetTrainer_new_def ext_example_def conf_example_def trainer_example_def)

text \<open>
  C7 (as amended). The constructor fails exactly when the momentum or max\_param\_change is
  negative. Constructing a trainer with a positive momentum and a positive backstitch scale
  (and max\_param\_change not negative) succeeds; the incompatibility is enforced by Train:
  on the trainer just constructed, with an interval that is not zero, the first call of Train
  fails on the assertion that the momentum is zero, and so does every call of Train at a
  backstitch boundary of a trainer whose momentum is not zero. The assertion precedes every
  call of TrainInternal, so no sub-step has run.
\<close>

theorem backstitch_momentum_checked_in_Train:
  "(isl (NnetTrainer_new ext conf net g) \<longleftrightarrow> momentum conf < 0 \<or> max_param_change conf < 0) \<and>
   (momentum conf > 0 \<and> backstitch_training_scale conf > 0 \<and> max_param_change conf \<ge> 0 \<and>
    backstitch_training_interval conf \<noteq> 0 \<longrightarrow>
      (\<exists>s. NnetTrainer_new ext conf net g = Inr s \<and>
           filter is_Train_call (events s) = [] \<and>
           Train ext eg s = Inl (AssertFailed ''config_.momentum == 0.0''))) \<and>
   (is_backstitch_boundary (config s) (num_minibatches_processed s) = Inr True \<and>
    momentum (config s) \<noteq> 0 \<longrightarrow>
      Train ext eg s = Inl (AssertFailed ''config_.momentum == 0.0''))"
proof (intro conjI impI)
  show "isl (NnetTrainer_new ext conf net g) \<longleftrightarrow> momentum conf < 0 \<or> max_param_change conf < 0"
    by (auto simp: NnetTrainer_new_def Let_def split_beta)
next
  assume a: "momentum conf > 0 \<and> backstitch_training_scale conf > 0 \<and>
             max_param_change conf \<ge> 0 \<and> backstitch_training_interval conf \<noteq> 0"
  then obtain s where n: "NnetTrainer_new ext conf net g = Inr s"
    and c: "config s = conf" "num_minibatches_processed s = 0"
    and e: "filter is_Train_call (events s) = []"
    by (auto simp: NnetTrainer_new_def Let_def split_beta)
  have "(0 :: int32) \<noteq> INT32_MIN" by (simp add: INT32_MIN_def)
  with a have "is_backstitch_boundary conf 0 = Inr True"
    by (simp add: is_backstitch_boundary_def int32_mod_def)
  with a c have "Train ext eg s = Inl (AssertFailed ''config_.momentum == 0.0'')"
    by (simp add: Train_def)
  with n e show "\<exists>s. NnetTrainer_new ext conf net g = Inr s \<and>
           filter is_Train_call (events s) = [] \<and>
           Train ext eg s = Inl (AssertFailed ''config_.momentum == 0.0'')"
    by blast
next
  assume "is_backstitch_boundary (config s) (num_minibatches_processed s) = Inr True \<and>
          momentum (config s) \<noteq> 0"
  then show "Train ext eg s = Inl (AssertFailed ''config_.momentum == 0.0'')"
    by (simp add: Train_def)
qed

theorem backstitch_momentum_checked_in_Train_witness:
  "\<not> isl (NnetTrainer_new ext_example (conf_example (1 / 2) 2 1) [3] 0) \<and>
   isl (NnetTrainer_new ext_example (conf_example (- 1) 2 1) [3] 0) \<and>
   momentum (conf_example (1 / 2) 2 1) > 0 \<and>
   backstitch_training_scale (conf_example (1 / 2) 2 1) > 0 \<and>
   max_param_change (conf_example (1 / 2) 2 1) \<ge> 0 \<and>
   backstitch_training_interval (conf_example (1 / 2) 2 1) \<noteq> 0 \<and>
   NnetTrainer_new ext_example (conf_example (1 / 2) 2 1) [3] 0 =
     Inr (trainer_example (conf_example (1 / 2) 2 1) 0) \<and>
   Train ext_example eg_example (trainer_example (conf_example (1 / 2) 2 1) 0) =
     Inl (AssertFailed ''config_.momentum == 0.0'') \<and>
   is_backstitch_boundary (config (trainer_example (conf_example (1 / 2) 2 1) 6))
     (num_minibatches_processed (trainer_example (conf_example (1 / 2) 2 1) 6)) = Inr True \<and>
   Train ext_example eg_example (trainer_example (conf_example (1 / 2) 2 1) 6) =
     Inl (AssertFailed ''config_.momentum == 0.0'')"
proof -
  have n: "NnetTrainer_new ext_example (conf_example (1 / 2) 2 1) [3] 0 =
             Inr (trainer_example (conf_example (1 / 2) 2 1) 0)"
    by (simp add: NnetTrainer_new_def ext_example_def conf_example_def trainer_example_def)
  have b: "is_backstitch_boundary (config (trainer_example (conf_example (1 / 2) 2 1) 6))
     (num_minibatches_processed (trainer_example (conf_example (1 / 2) 2 1) 6)) = Inr True"
    by (simp add: is_backstitch_boundary_def conf_example_def trainer_example_def int32_mod_def
          INT32_MIN_def signed_modulo_int_def)
  show ?thesis
    using backstitch_momentum_checked_in_Train [of ext_example "conf_example (1 / 2) 2 1" "[3]" 0
        eg_example "trainer_example (conf_example (1 / 2) 2 1) 6"]
      backstitch_momentum_checked_in_Train [of ext_example "conf_example (- 1) 2 1" "[3]" 0
        eg_example "trainer_example (conf_example (1 / 2) 2 1) 6"]
      n b
    by (simp add: conf_example_def trainer_example_def)
qed

end
